theory Spec2Isabelle
  imports Main "HOL-Library.Sublist"
begin

section \<open>Python values, strings and the outside world\<close>

text \<open>
  Strings are byte lists. The two characters the scripts need that have no
  printable literal are named here.
\<close>

definition nl :: char where
  "nl = CHR 0x0A"

definition tab :: char where
  "tab = CHR 0x09"

definition dq :: char where
  "dq = CHR 0x22"

definition sq :: char where
  "sq = CHR 0x27"

text \<open>\<^verbatim>\<open>sep.join(xs)\<close>\<close>

fun join :: "string \<Rightarrow> string list \<Rightarrow> string" where
  "join sep [] = []"
| "join sep [x] = x"
| "join sep (x # y # ys) = x @ sep @ join sep (y # ys)"

text \<open>\<^verbatim>\<open>s.lower()\<close>: on bytes, only A to Z change.\<close>

definition char_lower :: "char \<Rightarrow> char" where
  "char_lower c =
     (case map_of (zip ''ABCDEFGHIJKLMNOPQRSTUVWXYZ'' ''abcdefghijklmnopqrstuvwxyz'') c of
        Some d \<Rightarrow> d
      | None \<Rightarrow> c)"

definition lower :: "string \<Rightarrow> string" where
  "lower s = map char_lower s"

text \<open>\<^verbatim>\<open>s.startswith(p)\<close>\<close>

definition startswith :: "string \<Rightarrow> string \<Rightarrow> bool" where
  "startswith s p = (take (length p) s = p)"

text \<open>\<^verbatim>\<open>s.replace(".", "_")\<close>, for one-character arguments.\<close>

definition replace_char :: "char \<Rightarrow> char \<Rightarrow> string \<Rightarrow> string" where
  "replace_char a b s = map (\<lambda>c. if c = a then b else c) s"

text \<open>
  \<^verbatim>\<open>os.path.join(a, b)\<close> of posixpath: an absolute second component replaces
  the first, otherwise a separator is put between them unless the first is
  empty or already ends with one.
\<close>

definition os_path_join :: "string \<Rightarrow> string \<Rightarrow> string" where
  "os_path_join a b =
     (if startswith b ''/'' then b
      else if a = [] \<or> last a = CHR ''/'' then a @ b
      else a @ ''/'' @ b)"

text \<open>
  The values an option or a parameter can hold. \<^verbatim>\<open>str(v)\<close> is \<open>py_str\<close>; the
  \<^verbatim>\<open>repr\<close> of a string inside a list follows CPython on ASCII (quote choice,
  backslash escapes, hexadecimal escapes of control characters) and leaves bytes
  from 0x80 on as they are, as it does for printable text.
\<close>

datatype pyval =
    PNone
  | PBool bool
  | PInt int
  | PStr string
  | PList "string list"

fun show_nat :: "nat \<Rightarrow> string" where
  "show_nat n =
     (if n < 10 then [''0123456789'' ! n]
      else show_nat (n div 10) @ [''0123456789'' ! (n mod 10)])"

definition show_int :: "int \<Rightarrow> string" where
  "show_int i = (if i < 0 then ''-'' @ show_nat (nat (- i)) else show_nat (nat i))"

definition repr_char :: "char \<Rightarrow> char \<Rightarrow> string" where
  "repr_char quote c =
     (let n = (of_char c :: nat) in
      if c = quote \<or> c = CHR 0x5C then [CHR 0x5C, c]
      else if c = tab then [CHR 0x5C, CHR ''t'']
      else if c = nl then [CHR 0x5C, CHR ''n'']
      else if c = CHR 0x0D then [CHR 0x5C, CHR ''r'']
      else if n < 32 \<or> n = 127
        then [CHR 0x5C, CHR ''x'', ''0123456789abcdef'' ! (n div 16), ''0123456789abcdef'' ! (n mod 16)]
      else [c])"

definition py_repr :: "string \<Rightarrow> string" where
  "py_repr s =
     (let quote = (if sq \<in> set s \<and> dq \<notin> set s then dq else sq)
      in [quote] @ concat (map (repr_char quote) s) @ [quote])"

fun py_str :: "pyval \<Rightarrow> string" where
  "py_str PNone = ''None''"
| "py_str (PBool b) = (if b then ''True'' else ''False'')"
| "py_str (PInt i) = show_int i"
| "py_str (PStr s) = s"
| "py_str (PList xs) = ''['' @ join '', '' (map py_repr xs) @ '']''"

text \<open>\<^verbatim>\<open>v in xs\<close> for a list of strings: only a string can be equal to one.\<close>

fun py_in :: "pyval \<Rightarrow> string list \<Rightarrow> bool" where
  "py_in (PStr s) xs = (s \<in> set xs)"
| "py_in _ xs = False"

text \<open>\<^verbatim>\<open>d.get(k)\<close> and \<^verbatim>\<open>d.get(k, default)\<close>\<close>

definition dict_get :: "(string \<rightharpoonup> pyval) \<Rightarrow> string \<Rightarrow> pyval \<Rightarrow> pyval" where
  "dict_get d k dflt = (case d k of None \<Rightarrow> dflt | Some v \<Rightarrow> v)"

text \<open>The exceptions the three modules can raise, each with its message.\<close>

datatype py_error =
    RuntimeError string
  | KeyError string
  | AttributeError string
  | TypeError string

datatype level = WARNING | INFO

text \<open>
  Iterating a value (\<^verbatim>\<open>for x in v\<close>, \<^verbatim>\<open>xs += v\<close>): a list gives
  its elements, a string its characters, anything else is not iterable.
\<close>

fun py_iter :: "pyval \<Rightarrow> py_error + string list" where
  "py_iter (PList xs) = Inr xs"
| "py_iter (PStr s) = Inr (map (\<lambda>c. [c]) s)"
| "py_iter PNone = Inl (TypeError ([sq] @ ''NoneType'' @ [sq] @ '' object is not iterable''))"
| "py_iter (PBool b) = Inl (TypeError ([sq] @ ''bool'' @ [sq] @ '' object is not iterable''))"
| "py_iter (PInt i) = Inl (TypeError ([sq] @ ''int'' @ [sq] @ '' object is not iterable''))"

text \<open>\<^verbatim>\<open>sep.join(v)\<close> on a value.\<close>

fun py_join :: "string \<Rightarrow> pyval \<Rightarrow> py_error + string" where
  "py_join sep (PList xs) = Inr (join sep xs)"
| "py_join sep (PStr s) = Inr (join sep (map (\<lambda>c. [c]) s))"
| "py_join sep v = Inl (TypeError ''can only join an iterable'')"

text \<open>
  What the code acts on outside itself: the files on disk (path to contents),
  the records handed to the logger, and the external processes started through
  \<^verbatim>\<open>_run_tool\<close>, in order. \<^verbatim>\<open>open\<close> is taken to succeed, and a started process
  to return normally; both can fail only for reasons outside these modules.
\<close>

record world =
  fs :: "string \<rightharpoonup> string"
  logs :: "(level \<times> string) list"
  procs :: "(string \<times> string list) list"

text \<open>\<^verbatim>\<open>open(path, "w")\<close> creates the file or truncates it.\<close>

definition fopen :: "string \<Rightarrow> world \<Rightarrow> world" where
  "fopen path w = w\<lparr>fs := (fs w)(path \<mapsto> [])\<rparr>"

text \<open>The text of a file, empty when there is none.\<close>

definition read_text :: "world \<Rightarrow> string \<Rightarrow> string" where
  "read_text w path = (case fs w path of None \<Rightarrow> [] | Some t \<Rightarrow> t)"

text \<open>\<^verbatim>\<open>f.write(s)\<close> on a file opened at \<open>path\<close>.\<close>

definition fwrite :: "string \<Rightarrow> string \<Rightarrow> world \<Rightarrow> world" where
  "fwrite path s w = w\<lparr>fs := (fs w)(path \<mapsto> read_text w path @ s)\<rparr>"

definition logger_warning :: "string \<Rightarrow> world \<Rightarrow> world" where
  "logger_warning msg w = w\<lparr>logs := logs w @ [(WARNING, msg)]\<rparr>"

definition logger_info :: "string \<Rightarrow> world \<Rightarrow> world" where
  "logger_info msg w = w\<lparr>logs := logs w @ [(INFO, msg)]\<rparr>"

text \<open>\<^verbatim>\<open>self._run_tool(cmd, args, quiet=True)\<close>: the invocation is recorded.\<close>

definition run_tool :: "string \<Rightarrow> string list \<Rightarrow> world \<Rightarrow> world" where
  "run_tool cmd args w = w\<lparr>procs := procs w @ [(cmd, args)]\<rparr>"

definition world0 :: world where
  "world0 = \<lparr>fs = Map.empty, logs = [], procs = []\<rparr>"


section \<open>utils.py: the command graph writer\<close>

record Command =
  command :: "string list"
  targets :: "string list"
  depends :: "string list"
  order_only_deps :: "string list"

text \<open>
  \<open>default_target\<close> is \<open>None\<close> while the attribute does not exist:
  \<^verbatim>\<open>__init__\<close> does not create it, only \<^verbatim>\<open>set_default_target\<close> does.
\<close>

record EdaCommands =
  commands :: "Command list"
  header :: string
  default_target :: "string option"

definition EdaCommands_init :: EdaCommands where
  "EdaCommands_init =
     \<lparr>commands = [],
      header = ''#Auto generated by Edalize'' @ [nl, nl],
      default_target = None\<rparr>"

definition add :: "string list \<Rightarrow> string list \<Rightarrow> string list \<Rightarrow> string list \<Rightarrow>
    EdaCommands \<Rightarrow> EdaCommands" where
  "add cmd tgts deps oods self =
     self\<lparr>commands := commands self @
       [\<lparr>command = cmd, targets = tgts, depends = deps, order_only_deps = oods\<rparr>]\<rparr>"

definition set_default_target :: "string \<Rightarrow> EdaCommands \<Rightarrow> EdaCommands" where
  "set_default_target target self = self\<lparr>default_target := Some target\<rparr>"

text \<open>The body of the loop over \<^verbatim>\<open>self.commands\<close> in \<^verbatim>\<open>write\<close>, one command.\<close>

definition write_command :: "string \<Rightarrow> world \<Rightarrow> Command \<Rightarrow> world" where
  "write_command outfile w c =
     (let w = fwrite outfile ([nl] @ join '' '' (targets c) @ '':'') w;
          w = foldl (\<lambda>w d. fwrite outfile ('' '' @ d) w) w (depends c);
          w = (if order_only_deps c \<noteq> []
               then foldl (\<lambda>w d. fwrite outfile ('' '' @ d) w)
                      (fwrite outfile '' |'' w) (order_only_deps c)
               else w);
          w = fwrite outfile [nl] w
      in if command c \<noteq> []
         then fwrite outfile ([tab] @ ''$(EDALIZE_LAUNCHER) '' @ join '' '' (command c) @ [nl]) w
         else w)"

text \<open>
  \<^verbatim>\<open>EdaCommands.write\<close> (\<open>write\<close> is a keyword of the proof language, hence the
  longer name): the file is opened and the header written before the default
  target is looked at. Reading an attribute that was never set raises
  AttributeError; an empty target is falsy and raises the RuntimeError.
\<close>

definition EdaCommands_write :: "EdaCommands \<Rightarrow> string \<Rightarrow> world \<Rightarrow> (py_error + unit) \<times> world" where
  "EdaCommands_write self outfile w =
     (let w = fopen outfile w;
          w = fwrite outfile (header self) w
      in case default_target self of
           None \<Rightarrow>
             (Inl (AttributeError
                ([sq] @ ''EdaCommands'' @ [sq] @ '' object has no attribute '' @
                 [sq] @ ''default_target'' @ [sq])), w)
         | Some t \<Rightarrow>
             if t = []
             then (Inl (RuntimeError ''Internal Edalize error. Missing default target''), w)
             else (Inr (),
                   foldl (write_command outfile)
                     (fwrite outfile (''all: '' @ t @ [nl]) w) (commands self)))"


section \<open>The tool object\<close>

text \<open>
  A source file as the fileset provider hands it over, and the attributes of
  the tool object that the two backends read and write. \<open>src_files\<close> and
  \<open>incdirs\<close> are what \<^verbatim>\<open>_get_fileset_files\<close> returns. The dictionaries of
  parameters are association lists in insertion order. The attribute
  \<^verbatim>\<open>self.name\<close> is the field \<open>tool_name\<close>, since a file has a \<open>name\<close> too.
\<close>

record src_file =
  name :: string
  file_type :: string
  logical_name :: string

record edatool =
  tool_name :: string
  work_root :: string
  toplevel :: string
  tool_options :: "string \<rightharpoonup> pyval"
  generic :: "(string \<times> pyval) list"
  vlogdefine :: "(string \<times> pyval) list"
  vlogparam :: "(string \<times> pyval) list"
  cmdlinearg :: "(string \<times> pyval) list"
  plusarg :: "(string \<times> pyval) list"
  src_files :: "src_file list"
  incdirs :: "string list"
  verilator_file :: string
  args :: "string list"


section \<open>radiant.py: the tool-project backend\<close>

text \<open>
  Two functions of the base package are not part of these modules and are
  parameters of the model: \<open>get_file_type\<close> (file-type detection) and
  \<open>param_value_str\<close> (\<^verbatim>\<open>_param_value_str(value, str_quote_style)\<close>).
\<close>

definition work_source :: "src_file \<Rightarrow> string" where
  "work_source f =
     '' -work '' @ (if logical_name f \<noteq> [] then logical_name f else ''work'')"

definition file_types :: "(string \<times> string) list" where
  "file_types =
     [(''verilogSource'', ''prj_add_source ''),
      (''systemVerilogSource'', ''prj_add_source ''),
      (''vhdlSource'', ''prj_add_source ''),
      (''PDC'', ''prj_add_source ''),
      (''SDC'', ''prj_add_source '')]"

definition src_file_filter ::
    "(src_file \<Rightarrow> string) \<Rightarrow> src_file \<Rightarrow> world \<Rightarrow> string \<times> world" where
  "src_file_filter get_file_type f w =
     (let ft = get_file_type f in
      case map_of file_types ft of
        Some d \<Rightarrow> (d @ name f @ work_source f, w)
      | None \<Rightarrow>
          if ft = ''tclSource'' then (''source '' @ name f, w)
          else if ft \<in> set [''user'', ''LPF''] then ([], w)
          else ([], logger_warning
                  (name f @ '' has unknown file type '' @ [sq] @ file_type f @ [sq]) w))"

text \<open>The loop of \<^verbatim>\<open>configure_main\<close> that looks for PDC files, one file.\<close>

definition pdc_step :: "string option \<times> world \<Rightarrow> src_file \<Rightarrow> string option \<times> world" where
  "pdc_step st f =
     (case st of (pdc_file, w) \<Rightarrow>
        if file_type f = ''PDC''
        then (if pdc_file \<noteq> None \<and> pdc_file \<noteq> Some []
              then (pdc_file, logger_warning
                      ''Multiple PDC files detected. Only the first one will be used'' w)
              else (Some (name f), w))
        else (pdc_file, w))"

definition TCL_TEMPLATE :: "string \<Rightarrow> string \<Rightarrow> string \<Rightarrow> string" where
  "TCL_TEMPLATE prj part topl =
     ''#Generated by Edalize'' @ [nl] @
     ''prj_create -name '' @ prj @ '' -impl '' @ [dq] @ ''impl'' @ [dq] @ '' -dev '' @ part @ [nl] @
     ''prj_set_impl_opt top '' @ topl @ [nl]"

text \<open>One parameter dictionary as \<^verbatim>\<open>";".join("{}={}".format(k, ...))\<close>.\<close>

definition param_items :: "(pyval \<Rightarrow> string) \<Rightarrow> (string \<times> pyval) list \<Rightarrow> string" where
  "param_items fmt d = join '';'' (map (\<lambda>(k, v). k @ ''='' @ fmt v) d)"

text \<open>The three writes of one parameter directive.\<close>

definition write_directive :: "string \<Rightarrow> string \<Rightarrow> string \<Rightarrow> world \<Rightarrow> world" where
  "write_directive p directive s w =
     fwrite p (''}'' @ [nl]) (fwrite p s (fwrite p directive w))"

text \<open>The loop over the source files that writes their lines, one file.\<close>

definition src_step :: "(src_file \<Rightarrow> string) \<Rightarrow> string \<Rightarrow> world \<Rightarrow> src_file \<Rightarrow> world" where
  "src_step get_file_type p w f =
     (case src_file_filter get_file_type f w of
        (s, w) \<Rightarrow> if s \<noteq> [] then fwrite p (s @ [nl]) w else w)"

definition RUN_TEMPLATE :: "string \<Rightarrow> string" where
  "RUN_TEMPLATE prj =
     ''#Generated by Edalize'' @ [nl] @
     ''prj_open '' @ prj @ ''.rdf'' @ [nl] @
     ''prj_run Synthesis -impl impl -forceOne'' @ [nl] @
     ''prj_run Map -impl impl'' @ [nl] @
     ''prj_run PAR -impl impl'' @ [nl] @
     ''prj_run Export -impl impl -task Bitgen'' @ [nl] @
     ''prj_save'' @ [nl] @
     ''prj_close'' @ [nl]"

text \<open>
  \<^verbatim>\<open>Radiant.configure_main\<close>. The project script is opened before the part is
  looked up, so a missing part leaves an empty script behind its KeyError.
\<close>

definition Radiant_configure_main ::
    "(src_file \<Rightarrow> string) \<Rightarrow> (pyval \<Rightarrow> string \<Rightarrow> string) \<Rightarrow> edatool \<Rightarrow> world \<Rightarrow>
     (py_error + unit) \<times> world" where
  "Radiant_configure_main get_file_type param_value_str self w =
     (let prj_name = replace_char CHR ''.'' CHR ''_'' (tool_name self);
          w = snd (foldl pdc_step (None, w) (src_files self));
          p = os_path_join (work_root self) (tool_name self @ ''.tcl'');
          w = fopen p w
      in case tool_options self ''part'' of
           None \<Rightarrow> (Inl (KeyError ''part''), w)
         | Some part \<Rightarrow>
            (let w = fwrite p (TCL_TEMPLATE prj_name (py_str part) (toplevel self)) w;
                 w = (if incdirs self \<noteq> []
                      then fwrite p (''prj_set_impl_opt {include path} {'' @
                             join '' '' (incdirs self) @ ''}'' @ [nl]) w
                      else w);
                 w = (if generic self \<noteq> []
                      then write_directive p ''prj_set_impl_opt HDL_PARAM {''
                             (param_items py_str (generic self)) w
                      else w);
                 w = (if vlogparam self \<noteq> []
                      then write_directive p ''prj_set_impl_opt HDL_PARAM {''
                             (param_items (\<lambda>v. param_value_str v [dq]) (vlogparam self)) w
                      else w);
                 w = (if vlogdefine self \<noteq> []
                      then write_directive p ''prj_set_impl_opt VERILOG_DIRECTIVES {''
                             (param_items py_str (vlogdefine self)) w
                      else w);
                 w = foldl (src_step get_file_type p) w (src_files self);
                 w = fwrite p (''prj_save'' @ [nl] @ ''prj_close'' @ [nl]) w;
                 p2 = os_path_join (work_root self) (tool_name self @ ''_run.tcl'');
                 w = fopen p2 w;
                 w = fwrite p2 (RUN_TEMPLATE prj_name) w
             in (Inr (), w)))"

definition Radiant_build_main :: "edatool \<Rightarrow> world \<Rightarrow> world" where
  "Radiant_build_main self w =
     run_tool ''radiantc'' [tool_name self @ ''_run.tcl'']
       (run_tool ''radiantc'' [tool_name self @ ''.tcl''] w)"

definition Radiant_run_main :: "edatool \<Rightarrow> world \<Rightarrow> world" where
  "Radiant_run_main self w = w"


section \<open>verilator.py: the simulator-configuration backend\<close>

definition CONFIG_MK_TEMPLATE :: "string \<Rightarrow> string \<Rightarrow> string \<Rightarrow> string \<Rightarrow> string" where
  "CONFIG_MK_TEMPLATE top_module vc_file verilator_options make_options =
     ''#Auto generated by Edalize'' @ [nl] @ [nl] @
     ''TOP_MODULE        := '' @ top_module @ [nl] @
     ''VC_FILE           := '' @ vc_file @ [nl] @
     ''VERILATOR_OPTIONS := '' @ verilator_options @ [nl] @
     ''MAKE_OPTIONS      := '' @ make_options @ [nl]"

definition MAKEFILE_TEMPLATE :: string where
  "MAKEFILE_TEMPLATE =
     concat (map (\<lambda>l. l @ [nl])
       [''#Auto generated by Edalize'',
        [],
        ''include config.mk'',
        [],
        ''#Assume a local installation if VERILATOR_ROOT is set'',
        ''ifeq ($(VERILATOR_ROOT),)'',
        ''VERILATOR ?= verilator'',
        ''else'',
        ''VERILATOR ?= $(VERILATOR_ROOT)/bin/verilator'',
        ''endif'',
        [],
        ''V$(TOP_MODULE): V$(TOP_MODULE).mk'',
        [tab] @ ''$(MAKE) $(MAKE_OPTIONS) -f $<'',
        ''V$(TOP_MODULE).mk:'',
        [tab] @ ''$(EDALIZE_LAUNCHER) $(VERILATOR) -f $(VC_FILE) $(VERILATOR_OPTIONS)'',
        [],
        ''.PHONY: binary dpi-hdr-only lint-only preprocess-only xml-only'',
        ''binary:'',
        [tab] @ ''$(EDALIZE_LAUNCHER) $(VERILATOR) --binary -f $(VC_FILE) $(VERILATOR_OPTIONS)'',
        ''dpi-hdr-only:'',
        [tab] @ ''$(EDALIZE_LAUNCHER) $(VERILATOR) --dpi-hdr-only -f $(VC_FILE) $(VERILATOR_OPTIONS)'',
        ''lint-only:'',
        [tab] @ ''$(EDALIZE_LAUNCHER) $(VERILATOR) --lint-only -f $(VC_FILE) $(VERILATOR_OPTIONS)'',
        ''preprocess-only V$(TOP_MODULE).i:'',
        [tab] @ ''$(EDALIZE_LAUNCHER) $(VERILATOR) -E -f $(VC_FILE) $(VERILATOR_OPTIONS) > V$(TOP_MODULE).i'',
        ''xml-only V$(TOP_MODULE).xml:'',
        [tab] @ ''$(EDALIZE_LAUNCHER) $(VERILATOR) --xml-only -f $(VC_FILE) $(VERILATOR_OPTIONS)''])"

definition modes :: "string list" where
  "modes =
     [''binary'', ''cc'', ''dpi-hdr-only'', ''lint-only'', ''none'', ''preprocess-only'',
      ''sc'', ''xml-only'']"

text \<open>
  A method returns its outcome, the tool object as it has left it (the methods
  assign attributes and store into \<^verbatim>\<open>self.tool_options\<close>) and the world.
\<close>

type_synonym outcome = "(py_error + unit) \<times> edatool \<times> world"

definition check_managed_parser :: "edatool \<Rightarrow> world \<Rightarrow> world" where
  "check_managed_parser self w =
     (let managed = (tool_options self ''cli_parser'' = None
                     \<or> tool_options self ''cli_parser'' = Some (PStr ''managed''))
      in if \<not> managed
         then logger_warning
           ''The cli_parser argument is deprecated. Use run_options to pass raw arguments to verilated models''
           w
         else w)"

text \<open>
  \<^verbatim>\<open>if "mode" not in self.tool_options: self.tool_options["mode"] = "cc"\<close>,
  which each of the three methods does on the dictionary of the object.
\<close>

definition default_mode :: "edatool \<Rightarrow> edatool" where
  "default_mode self =
     (if tool_options self ''mode'' = None
      then self\<lparr>tool_options := (tool_options self)(''mode'' \<mapsto> PStr ''cc'')\<rparr>
      else self)"

definition illegal_mode :: "pyval \<Rightarrow> py_error" where
  "illegal_mode mode =
     RuntimeError (''Illegal verilator mode '' @ py_str mode @ ''. Allowed values are '' @
                   join '', '' modes)"

text \<open>
  The loop that sorts the source files into \<^verbatim>\<open>vlt_files\<close>, \<^verbatim>\<open>vlog_files\<close> and
  \<^verbatim>\<open>opt_c_files\<close>, one file. The chain has no final \<^verbatim>\<open>else\<close>.
\<close>

definition sort_step ::
    "string list \<times> string list \<times> string list \<Rightarrow> src_file \<Rightarrow>
     string list \<times> string list \<times> string list" where
  "sort_step st f =
     (case st of (vlt_files, vlog_files, opt_c_files) \<Rightarrow>
        if startswith (file_type f) ''systemVerilogSource''
           \<or> startswith (file_type f) ''verilogSource''
        then (vlt_files, vlog_files @ [name f], opt_c_files)
        else if file_type f \<in> set [''cppSource'', ''systemCSource'', ''cSource'']
        then (vlt_files, vlog_files, opt_c_files @ [name f])
        else if file_type f = ''vlt''
        then (vlt_files @ [name f], vlog_files, opt_c_files)
        else if file_type f = ''user''
        then (vlt_files, vlog_files, opt_c_files)
        else (vlt_files, vlog_files, opt_c_files))"

text \<open>
  The command file from the mode line on, once the mode has been found legal.
  A \<^verbatim>\<open>libs\<close> option that cannot be iterated raises in the middle of the file.
\<close>

definition write_vc_body ::
    "(pyval \<Rightarrow> string \<Rightarrow> string) \<Rightarrow> edatool \<Rightarrow> string \<Rightarrow> pyval \<Rightarrow> world \<Rightarrow>
     (py_error + unit) \<times> world" where
  "write_vc_body param_value_str self p mode w =
     (let w = (if py_in mode [''cc'', ''sc'']
               then fwrite p (''--'' @ py_str mode @ [nl]) w else w)
      in case (case tool_options self ''libs'' of None \<Rightarrow> Inr [] | Some v \<Rightarrow> py_iter v) of
           Inl e \<Rightarrow> (Inl e, w)
         | Inr libs \<Rightarrow>
            (let w = foldl (\<lambda>w lib. fwrite p (''-LDFLAGS '' @ lib @ [nl]) w) w libs;
                 w = foldl (\<lambda>w d. fwrite p (''-CFLAGS -I'' @ d @ [nl])
                                     (fwrite p (''+incdir+'' @ d @ [nl]) w)) w (incdirs self)
             in case foldl sort_step ([], [], []) (src_files self) of
                  (vlt_files, vlog_files, opt_c_files) \<Rightarrow>
                   (let w = (if vlt_files \<noteq> []
                             then fwrite p (join [nl] vlt_files @ [nl]) w else w);
                        w = fwrite p (join [nl] vlog_files @ [nl]) w;
                        w = fwrite p (''--top-module '' @ toplevel self @ [nl]) w;
                        w = (if lower (py_str (dict_get (tool_options self) ''exe'' PNone))
                                \<noteq> ''false''
                             then fwrite p (''--exe'' @ [nl]) w else w);
                        w = fwrite p (join [nl] opt_c_files) w;
                        w = fwrite p [nl] w;
                        w = fwrite p (concat (map (\<lambda>(k, v).
                                ''-G'' @ k @ ''='' @ param_value_str v [CHR 0x5C, dq] @ [nl])
                              (vlogparam self))) w;
                        w = fwrite p (concat (map (\<lambda>(k, v).
                                ''-D'' @ k @ ''='' @ param_value_str v [] @ [nl])
                              (vlogdefine self))) w
                    in (Inr (), w))))"

text \<open>The build file and the variables file, written after the command file.\<close>

definition write_mk_files :: "edatool \<Rightarrow> world \<Rightarrow> (py_error + unit) \<times> world" where
  "write_mk_files self w =
     (let pm = os_path_join (work_root self) ''Makefile'';
          w = fwrite pm MAKEFILE_TEMPLATE (fopen pm w)
      in case (case tool_options self ''verilator_options'' of
                 None \<Rightarrow> Inr [] | Some v \<Rightarrow> py_join '' '' v) of
           Inl e \<Rightarrow> (Inl e, w)
         | Inr verilator_options \<Rightarrow>
            (case (case tool_options self ''make_options'' of
                     None \<Rightarrow> Inr [] | Some v \<Rightarrow> py_join '' '' v) of
               Inl e \<Rightarrow> (Inl e, w)
             | Inr make_options \<Rightarrow>
                (let pc = os_path_join (work_root self) ''config.mk'';
                     w = fwrite pc (CONFIG_MK_TEMPLATE (toplevel self) (verilator_file self)
                                      verilator_options make_options) (fopen pc w)
                 in (Inr (), w))))"

text \<open>
  \<^verbatim>\<open>Verilator._write_config_files\<close>. The command file is opened and its first
  line written before the mode is defaulted and checked.
\<close>

definition write_config_files :: "(pyval \<Rightarrow> string \<Rightarrow> string) \<Rightarrow> edatool \<Rightarrow> world \<Rightarrow> outcome" where
  "write_config_files param_value_str self w =
     (let self = self\<lparr>verilator_file := tool_name self @ ''.vc''\<rparr>;
          p = os_path_join (work_root self) (verilator_file self);
          w = fwrite p (''--Mdir .'' @ [nl]) (fopen p w);
          self = default_mode self
      in case tool_options self ''mode'' of
           None \<Rightarrow> (Inl (KeyError ''mode''), self, w)
         | Some mode \<Rightarrow>
            if \<not> py_in mode modes then (Inl (illegal_mode mode), self, w)
            else (case write_vc_body param_value_str self p mode w of
                    (Inl e, w) \<Rightarrow> (Inl e, self, w)
                  | (Inr u, w) \<Rightarrow>
                     (case write_mk_files self w of (r, w) \<Rightarrow> (r, self, w))))"

definition Verilator_configure_main ::
    "(pyval \<Rightarrow> string \<Rightarrow> string) \<Rightarrow> edatool \<Rightarrow> world \<Rightarrow> outcome" where
  "Verilator_configure_main param_value_str self w =
     (let w = logger_warning
            ''This backend is deprecated and will eventually be removed. Please migrate to the flow API instead.  See https://edalize.readthedocs.io/en/latest/ref/migrations.html#migrating-from-the-tool-api-to-the-flow-api for more details.''
            w;
          w = check_managed_parser self w
      in if toplevel self = []
         then (Inl (RuntimeError ([sq] @ tool_name self @ [sq] @
                  '' miss a mandatory parameter '' @ [sq] @ ''top_module'' @ [sq])), self, w)
         else write_config_files param_value_str self w)"

text \<open>\<^verbatim>\<open>str(self.tool_options.get(k)).lower() == "true"\<close>\<close>

definition option_true :: "edatool \<Rightarrow> string \<Rightarrow> bool" where
  "option_true self k = (lower (py_str (dict_get (tool_options self) k PNone)) = ''true'')"

definition Verilator_build_main :: "edatool \<Rightarrow> world \<Rightarrow> outcome" where
  "Verilator_build_main self w =
     (let w = logger_info ''Building simulation model'' w;
          self = default_mode self
      in case tool_options self ''mode'' of
           None \<Rightarrow> (Inl (KeyError ''mode''), self, w)
         | Some mode \<Rightarrow>
            if \<not> py_in mode modes then (Inl (illegal_mode mode), self, w)
            else
             (let args = (if py_in mode [''binary'', ''dpi-hdr-only'', ''lint-only'',
                                          ''preprocess-only'', ''xml-only'']
                          then [py_str mode] else []);
                  w = (if mode \<noteq> PStr ''none'' then run_tool ''make'' args w else w);
                  w = (if option_true self ''gen-xml''
                       then run_tool ''make'' [''xml-only''] w else w);
                  w = (if option_true self ''gen-dpi-hdr''
                       then run_tool ''make'' [''dpi-hdr-only''] w else w);
                  w = (if option_true self ''gen-preprocess''
                       then run_tool ''make'' [''preprocess-only''] w else w)
              in (Inr (), self, w)))"

text \<open>The runtime arguments \<^verbatim>\<open>run_main\<close> builds from the two dictionaries.\<close>

definition managed_args :: "(pyval \<Rightarrow> string \<Rightarrow> string) \<Rightarrow> edatool \<Rightarrow> string list" where
  "managed_args param_value_str self =
     foldl (\<lambda>a (k, v). a @ [''--'' @ k @ ''='' @ param_value_str v []])
       (foldl (\<lambda>a (k, v). a @ [''+'' @ k @ ''='' @ param_value_str v []]) [] (plusarg self))
       (cmdlinearg self)"

definition Verilator_run_main ::
    "(pyval \<Rightarrow> string \<Rightarrow> string) \<Rightarrow> edatool \<Rightarrow> world \<Rightarrow> outcome" where
  "Verilator_run_main param_value_str self w =
     (let w = check_managed_parser self w;
          self = self\<lparr>args := managed_args param_value_str self\<rparr>
      in case py_iter (dict_get (tool_options self) ''run_options'' (PList [])) of
           Inl e \<Rightarrow> (Inl e, self, w)
         | Inr run_options \<Rightarrow>
            (let self = self\<lparr>args := args self @ run_options\<rparr>;
                 self = default_mode self
             in case tool_options self ''mode'' of
                  None \<Rightarrow> (Inl (KeyError ''mode''), self, w)
                | Some mode \<Rightarrow>
                   if py_in mode [''dpi-hdr-only'', ''lint-only'', ''preprocess-only'',
                                  ''xml-only'']
                   then (Inr (), self, w)
                   else (Inr (), self,
                         run_tool (''./V'' @ toplevel self) (args self)
                           (logger_info ''Running simulation'' w))))"


section \<open>Auxiliary definitions for the statements\<close>

text \<open>
  The world after a file has been given a text, and after records have been
  logged: the forms to which the effects of the methods are brought.
\<close>

definition set_text :: "string \<Rightarrow> string \<Rightarrow> world \<Rightarrow> world" where
  "set_text p t w = w\<lparr>fs := (fs w)(p \<mapsto> t)\<rparr>"

definition add_logs :: "(level \<times> string) list \<Rightarrow> world \<Rightarrow> world" where
  "add_logs l w = w\<lparr>logs := logs w @ l\<rparr>"

text \<open>What \<open>write_command\<close> appends to the build file for one command.\<close>

definition command_text :: "Command \<Rightarrow> string" where
  "command_text c =
     [nl] @ join '' '' (targets c) @ '':'' @ concat (map (\<lambda>d. '' '' @ d) (depends c)) @
     (if order_only_deps c \<noteq> []
      then '' |'' @ concat (map (\<lambda>d. '' '' @ d) (order_only_deps c)) else []) @
     [nl] @
     (if command c \<noteq> []
      then [tab] @ ''$(EDALIZE_LAUNCHER) '' @ join '' '' (command c) @ [nl] else [])"

text \<open>
  The reader of the round-trip property. The modules have no parser of build
  files; this one takes the first line that starts with \<^verbatim>\<open>all: \<close> and returns
  the rest of that line.
\<close>

fun split_lines :: "string \<Rightarrow> string list" where
  "split_lines [] = [[]]"
| "split_lines (c # cs) =
     (if c = nl then [] # split_lines cs
      else (case split_lines cs of [] \<Rightarrow> [[c]] | l # ls \<Rightarrow> (c # l) # ls))"

definition parse_all :: "string \<Rightarrow> string option" where
  "parse_all text =
     (case List.find (\<lambda>l. startswith l ''all: '') (split_lines text) of
        None \<Rightarrow> None
      | Some l \<Rightarrow> Some (drop 5 l))"

text \<open>
  The two results of \<open>src_file_filter\<close> taken apart: the line it returns and the
  records it logs. Neither depends on the world it is run in.
\<close>

definition directive :: "(src_file \<Rightarrow> string) \<Rightarrow> src_file \<Rightarrow> string" where
  "directive get_file_type f = fst (src_file_filter get_file_type f world0)"

definition type_warnings :: "(src_file \<Rightarrow> string) \<Rightarrow> src_file \<Rightarrow> (level \<times> string) list" where
  "type_warnings get_file_type f = logs (snd (src_file_filter get_file_type f world0))"

definition source_lines :: "(src_file \<Rightarrow> string) \<Rightarrow> src_file list \<Rightarrow> string" where
  "source_lines get_file_type fl =
     concat (map (\<lambda>f. if directive get_file_type f \<noteq> []
                       then directive get_file_type f @ [nl] else []) fl)"

text \<open>The warnings of the loop over PDC files in \<open>Radiant_configure_main\<close>.\<close>

definition pdc_warnings :: "src_file list \<Rightarrow> (level \<times> string) list" where
  "pdc_warnings fl = logs (snd (foldl pdc_step (None, world0) fl))"

text \<open>
  Modelled from the spec: \<^verbatim>\<open>_param_value_str\<close>, a method of the base class, which is
  not among the modules. Booleans and numbers pass through as bare tokens; a
  string is wrapped in the quote characters the backend supplies. The methods
  take this function as a parameter; this instance serves the concrete runs.
\<close>

definition param_value_str_spec :: "pyval \<Rightarrow> string \<Rightarrow> string" where
  "param_value_str_spec v quote = (case v of PStr s \<Rightarrow> quote @ s @ quote | _ \<Rightarrow> py_str v)"

text \<open>The project script as one text.\<close>

definition tcl_script ::
  "(src_file \<Rightarrow> string) \<Rightarrow> (pyval \<Rightarrow> string \<Rightarrow> string) \<Rightarrow> edatool \<Rightarrow> pyval \<Rightarrow> string" where
  "tcl_script g pvs self part =
     TCL_TEMPLATE (replace_char CHR ''.'' CHR ''_'' (tool_name self)) (py_str part) (toplevel self) @
     (if incdirs self = [] then []
      else ''prj_set_impl_opt {include path} {'' @ join '' '' (incdirs self) @ ''}'' @ [nl]) @
     (if generic self = [] then []
      else ''prj_set_impl_opt HDL_PARAM {'' @ param_items py_str (generic self) @ ''}'' @ [nl]) @
     (if vlogparam self = [] then []
      else ''prj_set_impl_opt HDL_PARAM {'' @
           param_items (\<lambda>v. pvs v [dq]) (vlogparam self) @ ''}'' @ [nl]) @
     (if vlogdefine self = [] then []
      else ''prj_set_impl_opt VERILOG_DIRECTIVES {'' @
           param_items py_str (vlogdefine self) @ ''}'' @ [nl]) @
     source_lines g (src_files self) @
     ''prj_save'' @ [nl] @ ''prj_close'' @ [nl]"

text \<open>A tool object on which nothing has been set, the start of the concrete runs.\<close>

definition edatool_init :: edatool where
  "edatool_init =
     \<lparr>tool_name = [], work_root = [], toplevel = [], tool_options = Map.empty,
      generic = [], vlogdefine = [], vlogparam = [], cmdlinearg = [], plusarg = [],
      src_files = [], incdirs = [], verilator_file = [], args = []\<rparr>"

text \<open>
  The command file taken apart: what stands between the mode line and the
  top-module line, and what follows the \<^verbatim>\<open>--exe\<close> line.
\<close>

definition vc_sources :: "string list \<Rightarrow> string list \<Rightarrow> src_file list \<Rightarrow> string" where
  "vc_sources libs dirs fl =
     concat (map (\<lambda>lib. ''-LDFLAGS '' @ lib @ [nl]) libs) @
     concat (map (\<lambda>d. ''+incdir+'' @ d @ [nl] @ ''-CFLAGS -I'' @ d @ [nl]) dirs) @
     (case foldl sort_step ([], [], []) fl of
        (vlt_files, vlog_files, opt_c_files) \<Rightarrow>
          (if vlt_files \<noteq> [] then join [nl] vlt_files @ [nl] else []) @
          join [nl] vlog_files @ [nl])"

definition vc_tail ::
  "(pyval \<Rightarrow> string \<Rightarrow> string) \<Rightarrow> src_file list \<Rightarrow> (string \<times> pyval) list \<Rightarrow>
   (string \<times> pyval) list \<Rightarrow> string" where
  "vc_tail pvs fl params defines =
     (case foldl sort_step ([], [], []) fl of
        (vlt_files, vlog_files, opt_c_files) \<Rightarrow> join [nl] opt_c_files @ [nl]) @
     concat (map (\<lambda>(k, v). ''-G'' @ k @ ''='' @ pvs v [CHR 0x5C, dq] @ [nl]) params) @
     concat (map (\<lambda>(k, v). ''-D'' @ k @ ''='' @ pvs v [] @ [nl]) defines)"


section \<open>Effects on the world\<close>

lemma fopen_set_text: "fopen p w = set_text p [] w"
  by (simp add: fopen_def set_text_def)

lemma fwrite_set_text: "fwrite p s (set_text p t w) = set_text p (t @ s) w"
  by (simp add: fwrite_def set_text_def read_text_def)

lemma set_text_set_text: "set_text p t (set_text p t' w) = set_text p t w"
  by (simp add: set_text_def)

lemma logger_warning_add_logs: "logger_warning m w = add_logs [(WARNING, m)] w"
  by (simp add: logger_warning_def add_logs_def)

lemma logger_info_add_logs: "logger_info m w = add_logs [(INFO, m)] w"
  by (simp add: logger_info_def add_logs_def)

lemma add_logs_add_logs: "add_logs a (add_logs b w) = add_logs (b @ a) w"
  by (simp add: add_logs_def)

lemma add_logs_Nil: "add_logs [] w = w"
  by (simp add: add_logs_def)

lemma add_logs_set_text: "add_logs l (set_text p t w) = set_text p t (add_logs l w)"
  by (simp add: add_logs_def set_text_def)

lemma fs_set_text: "fs (set_text p t w) = (fs w)(p \<mapsto> t)"
  by (simp add: set_text_def)
lemma logs_set_text: "logs (set_text p t w) = logs w"
  by (simp add: set_text_def)
lemma procs_set_text: "procs (set_text p t w) = procs w"
  by (simp add: set_text_def)
lemma fs_add_logs: "fs (add_logs l w) = fs w"
  by (simp add: add_logs_def)
lemma logs_add_logs: "logs (add_logs l w) = logs w @ l"
  by (simp add: add_logs_def)
lemma procs_add_logs: "procs (add_logs l w) = procs w"
  by (simp add: add_logs_def)
lemma fs_run_tool: "fs (run_tool c a w) = fs w"
  by (simp add: run_tool_def)
lemma logs_run_tool: "logs (run_tool c a w) = logs w"
  by (simp add: run_tool_def)
lemma procs_run_tool: "procs (run_tool c a w) = procs w @ [(c, a)]"
  by (simp add: run_tool_def)

lemma foldl_fwrite:
  "foldl (\<lambda>w d. fwrite p (f d) w) (set_text p t w) ds = set_text p (t @ concat (map f ds)) w"
  by (induction ds arbitrary: t) (simp_all add: fwrite_set_text)

lemma write_command_set_text:
  "write_command p (set_text p t w) c = set_text p (t @ command_text c) w"
proof -
  have sp: "(@) '' '' = (#) CHR '' ''"
    by (rule ext) simp
  have dep: "\<And>t w ds. foldl (\<lambda>w d. fwrite p (CHR '' '' # d) w) (set_text p t w) ds
      = set_text p (t @ concat (map ((#) CHR '' '') ds)) w"
    using foldl_fwrite [of p "(#) CHR '' ''"] by simp
  show ?thesis
    unfolding write_command_def command_text_def Let_def
    by (simp add: fwrite_set_text dep sp)
qed

lemma foldl_write_command:
  "foldl (write_command p) (set_text p t w) cs = set_text p (t @ concat (map command_text cs)) w"
  by (induction cs arbitrary: t) (simp_all add: write_command_set_text)

lemma EdaCommands_write_text:
  "EdaCommands_write self p w =
     (case default_target self of
        None \<Rightarrow> (Inl (AttributeError ([sq] @ ''EdaCommands'' @ [sq] @ '' object has no attribute '' @
                 [sq] @ ''default_target'' @ [sq])), set_text p (header self) w)
      | Some t \<Rightarrow>
          if t = [] then (Inl (RuntimeError ''Internal Edalize error. Missing default target''),
                          set_text p (header self) w)
          else (Inr (), set_text p (header self @ ''all: '' @ t @ [nl] @
                                    concat (map command_text (commands self))) w))"
  unfolding EdaCommands_write_def Let_def
  by (simp add: fopen_set_text fwrite_set_text foldl_write_command split: option.splits)

lemma split_lines_append:
  "nl \<notin> set a \<Longrightarrow> split_lines (a @ nl # b) = a # split_lines b"
  by (induction a) auto

lemma parse_all_header:
  assumes "nl \<notin> set t"
  shows "parse_all (''#Auto generated by Edalize'' @ [nl, nl] @ ''all: '' @ t @ [nl] @ rest) = Some t"
proof -
  have 1: "split_lines (''#Auto generated by Edalize'' @ [nl, nl] @ ''all: '' @ t @ [nl] @ rest)
      = ''#Auto generated by Edalize'' # split_lines (nl # ''all: '' @ t @ [nl] @ rest)"
    using split_lines_append [of "''#Auto generated by Edalize''" "nl # ''all: '' @ t @ [nl] @ rest"]
    by (simp add: nl_def)
  have 2: "split_lines (nl # ''all: '' @ t @ [nl] @ rest) = [] # split_lines (''all: '' @ t @ [nl] @ rest)"
    by simp
  have 3: "split_lines ((''all: '' @ t) @ nl # rest) = (''all: '' @ t) # split_lines rest"
    using assms by (intro split_lines_append) (simp add: nl_def)
  show ?thesis
    using 1 2 3 by (simp add: parse_all_def startswith_def)
qed

subsection \<open>The tool-project backend\<close>

lemma logs_world0: "logs world0 = []"
  by (simp add: world0_def)

lemma src_file_filter_split:
  "src_file_filter g f w = (directive g f, add_logs (type_warnings g f) w)"
  by (simp add: src_file_filter_def directive_def type_warnings_def Let_def logger_warning_add_logs
        logs_add_logs logs_world0 add_logs_Nil split: option.splits)

lemma src_step_set_text:
  "src_step g p (set_text p t w) f =
     set_text p (t @ (if directive g f \<noteq> [] then directive g f @ [nl] else []))
       (add_logs (type_warnings g f) w)"
  by (simp add: src_step_def src_file_filter_split add_logs_set_text fwrite_set_text)

lemma foldl_src_step:
  "foldl (src_step g p) (set_text p t w) fl =
     set_text p (t @ source_lines g fl) (add_logs (concat (map (type_warnings g) fl)) w)"
proof (induction fl arbitrary: t w)
  case Nil
  show ?case by (simp add: source_lines_def add_logs_Nil)
next
  case (Cons f fl)
  show ?case
    using Cons.IH [of "t @ (if directive g f \<noteq> [] then directive g f @ [nl] else [])"
                      "add_logs (type_warnings g f) w"]
    by (simp add: src_step_set_text source_lines_def add_logs_add_logs)
qed

lemma pdc_step_split:
  "pdc_step (st, w) f = (fst (pdc_step (st, world0) f),
                         add_logs (logs (snd (pdc_step (st, world0) f))) w)"
  by (simp add: pdc_step_def logger_warning_add_logs logs_add_logs logs_world0 add_logs_Nil)

lemma foldl_pdc_step:
  "snd (foldl pdc_step (st, w) fl) = add_logs (logs (snd (foldl pdc_step (st, world0) fl))) w"
proof (induction fl arbitrary: st w)
  case Nil
  show ?case by (simp add: logs_world0 add_logs_Nil)
next
  case (Cons f fl)
  obtain st' l where s: "pdc_step (st, world0) f = (st', add_logs l world0)"
    using pdc_step_split [of st world0 f] by simp
  have s': "pdc_step (st, w) f = (st', add_logs l w)"
    using pdc_step_split [of st w f] s by (simp add: logs_add_logs logs_world0)
  have "snd (foldl pdc_step (st', add_logs l world0) fl)
      = add_logs (logs (snd (foldl pdc_step (st', world0) fl))) (add_logs l world0)"
    by (rule Cons.IH)
  then have l0: "logs (snd (foldl pdc_step (st', add_logs l world0) fl))
      = l @ logs (snd (foldl pdc_step (st', world0) fl))"
    by (simp add: logs_add_logs logs_world0)
  show ?case
    using Cons.IH [of st' "add_logs l w"] by (simp add: s s' l0 add_logs_add_logs)
qed

lemma pdc_scan: "snd (foldl pdc_step (None, w) fl) = add_logs (pdc_warnings fl) w"
  unfolding pdc_warnings_def by (rule foldl_pdc_step)

lemma os_path_join_suffix:
  "\<exists>pre. os_path_join a b = pre @ b"
  by (auto simp: os_path_join_def intro: exI [of _ "[]"])

lemma os_path_join_last:
  "b \<noteq> [] \<Longrightarrow> c \<noteq> [] \<Longrightarrow> last b \<noteq> last c \<Longrightarrow> os_path_join a b \<noteq> os_path_join a' c"
proof -
  assume b: "b \<noteq> []" and c: "c \<noteq> []" and n: "last b \<noteq> last c"
  obtain x y where "os_path_join a b = x @ b" "os_path_join a' c = y @ c"
    using os_path_join_suffix by metis
  then show ?thesis using b c n
    by (metis last_appendR)
qed

lemma tcl_paths_differ:
  "os_path_join a (n @ ''_run.tcl'') \<noteq> os_path_join a (n @ ''.tcl'')"
proof
  assume e: "os_path_join a (n @ ''_run.tcl'') = os_path_join a (n @ ''.tcl'')"
  have "startswith (n @ ''_run.tcl'') ''/'' = startswith (n @ ''.tcl'') ''/''"
    by (cases n) (simp_all add: startswith_def)
  with e have "n @ ''_run.tcl'' = n @ ''.tcl''"
    by (auto simp: os_path_join_def split: if_splits)
  then show False by simp
qed

lemma Radiant_configure_main_effect:
  assumes "tool_options self ''part'' = Some part"
  shows "Radiant_configure_main g pvs self w =
     (Inr (),
      set_text (os_path_join (work_root self) (tool_name self @ ''_run.tcl''))
        (RUN_TEMPLATE (replace_char CHR ''.'' CHR ''_'' (tool_name self)))
        (set_text (os_path_join (work_root self) (tool_name self @ ''.tcl''))
           (tcl_script g pvs self part)
           (add_logs (pdc_warnings (src_files self) @ concat (map (type_warnings g) (src_files self))) w)))"
  unfolding Radiant_configure_main_def Let_def tcl_script_def
  by (simp add: assms pdc_scan fopen_set_text fwrite_set_text write_directive_def foldl_src_step
        add_logs_set_text add_logs_add_logs)

lemma Radiant_script:
  assumes "tool_options self ''part'' = Some part"
  shows "fs (snd (Radiant_configure_main g pvs self w))
           (os_path_join (work_root self) (tool_name self @ ''.tcl''))
         = Some (tcl_script g pvs self part)"
  by (simp add: Radiant_configure_main_effect [OF assms] fs_set_text tcl_paths_differ [symmetric])

lemma Radiant_logs:
  assumes "tool_options self ''part'' = Some part"
  shows "logs (snd (Radiant_configure_main g pvs self w))
         = logs w @ pdc_warnings (src_files self) @ concat (map (type_warnings g) (src_files self))"
  by (simp add: Radiant_configure_main_effect [OF assms] logs_set_text logs_add_logs)

subsection \<open>The simulator-configuration backend\<close>

lemma foldl_fwrite2:
  "foldl (\<lambda>w d. fwrite p (g d) (fwrite p (f d) w)) (set_text p t w) ds
     = set_text p (t @ concat (map (\<lambda>d. f d @ g d) ds)) w"
  by (induction ds arbitrary: t) (simp_all add: fwrite_set_text)

lemma write_vc_body_effect:
  assumes "(case tool_options self ''libs'' of None \<Rightarrow> Inr [] | Some v \<Rightarrow> py_iter v) = Inr libs"
  shows "write_vc_body pvs self p mode (set_text p t w) =
     (Inr (),
      set_text p
        (t @ (if py_in mode [''cc'', ''sc''] then ''--'' @ py_str mode @ [nl] else []) @
         vc_sources libs (incdirs self) (src_files self) @
         ''--top-module '' @ toplevel self @ [nl] @
         (if lower (py_str (dict_get (tool_options self) ''exe'' PNone)) \<noteq> ''false''
          then ''--exe'' @ [nl] else []) @
         vc_tail pvs (src_files self) (vlogparam self) (vlogdefine self)) w)"
proof -
  have l: "\<And>t w. foldl (\<lambda>w lib. fwrite p (''-LDFLAGS '' @ lib @ [nl]) w) (set_text p t w) libs
      = set_text p (t @ concat (map (\<lambda>lib. ''-LDFLAGS '' @ lib @ [nl]) libs)) w"
    by (rule foldl_fwrite)
  have d: "\<And>t w. foldl (\<lambda>w d. fwrite p (''-CFLAGS -I'' @ d @ [nl])
                     (fwrite p (''+incdir+'' @ d @ [nl]) w)) (set_text p t w) (incdirs self)
      = set_text p (t @ concat (map (\<lambda>d. (''+incdir+'' @ d @ [nl]) @ (''-CFLAGS -I'' @ d @ [nl]))
                                   (incdirs self))) w"
    by (rule foldl_fwrite2)
  obtain a b c where s: "foldl sort_step ([], [], []) (src_files self) = (a, b, c)"
    by (cases "foldl sort_step ([], [], []) (src_files self)") auto
  show ?thesis
    unfolding write_vc_body_def Let_def assms
    using l d by (simp add: fwrite_set_text vc_sources_def vc_tail_def s)
qed

lemma write_mk_files_frame:
  "logs (snd (write_mk_files self w)) = logs w"
  "procs (snd (write_mk_files self w)) = procs w"
  "q \<noteq> os_path_join (work_root self) ''Makefile'' \<Longrightarrow>
   q \<noteq> os_path_join (work_root self) ''config.mk'' \<Longrightarrow>
   fs (snd (write_mk_files self w)) q = fs w q"
  by (simp_all add: write_mk_files_def Let_def fopen_set_text fwrite_set_text logs_set_text
        procs_set_text fs_set_text split: sum.splits)

lemma vc_path_differs:
  "os_path_join a (n @ ''.vc'') \<noteq> os_path_join a' ''Makefile''"
  "os_path_join a (n @ ''.vc'') \<noteq> os_path_join a' ''config.mk''"
  by (rule os_path_join_last; simp)+

lemma tool_options_default_mode:
  "tool_options (default_mode self) =
     (case tool_options self ''mode'' of
        None \<Rightarrow> (tool_options self)(''mode'' \<mapsto> PStr ''cc'')
      | Some m \<Rightarrow> tool_options self)"
  by (simp add: default_mode_def split: option.splits)

lemma default_mode_fields:
  "tool_name (default_mode self) = tool_name self"
  "work_root (default_mode self) = work_root self"
  "toplevel (default_mode self) = toplevel self"
  "incdirs (default_mode self) = incdirs self"
  "src_files (default_mode self) = src_files self"
  "vlogparam (default_mode self) = vlogparam self"
  "vlogdefine (default_mode self) = vlogdefine self"
  "verilator_file (default_mode self) = verilator_file self"
  "args (default_mode self) = args self"
  by (simp_all add: default_mode_def)

lemma write_config_files_illegal:
  assumes "tool_options self ''mode'' = Some m" and "\<not> py_in m modes"
  shows "write_config_files pvs self w =
     (Inl (illegal_mode m), self\<lparr>verilator_file := tool_name self @ ''.vc''\<rparr>,
      set_text (os_path_join (work_root self) (tool_name self @ ''.vc'')) (''--Mdir .'' @ [nl]) w)"
  using assms
  by (simp add: write_config_files_def Let_def default_mode_def fopen_set_text fwrite_set_text)

lemma write_config_files_vc_text:
  assumes libs: "(case tool_options self ''libs'' of None \<Rightarrow> Inr [] | Some v \<Rightarrow> py_iter v) = Inr libs"
    and m: "m = (case tool_options self ''mode'' of None \<Rightarrow> PStr ''cc'' | Some m \<Rightarrow> m)"
    and legal: "py_in m modes"
  shows "fs (snd (snd (write_config_files pvs self w)))
           (os_path_join (work_root self) (tool_name self @ ''.vc''))
     = Some (''--Mdir .'' @ [nl] @
         (if py_in m [''cc'', ''sc''] then ''--'' @ py_str m @ [nl] else []) @
         vc_sources libs (incdirs self) (src_files self) @
         ''--top-module '' @ toplevel self @ [nl] @
         (if lower (py_str (dict_get (tool_options self) ''exe'' PNone)) \<noteq> ''false''
          then ''--exe'' @ [nl] else []) @
         vc_tail pvs (src_files self) (vlogparam self) (vlogdefine self))"
proof -
  let ?s = "default_mode (self\<lparr>verilator_file := tool_name self @ ''.vc''\<rparr>)"
  let ?p = "os_path_join (work_root self) (tool_name self @ ''.vc'')"
  have mo: "tool_options ?s ''mode'' = Some m"
    using m by (simp add: tool_options_default_mode split: option.splits)
  have lb: "(case tool_options ?s ''libs'' of None \<Rightarrow> Inr [] | Some v \<Rightarrow> py_iter v) = Inr libs"
    using libs by (simp add: tool_options_default_mode split: option.splits)
  have ex: "dict_get (tool_options ?s) ''exe'' PNone = dict_get (tool_options self) ''exe'' PNone"
    by (simp add: tool_options_default_mode dict_get_def split: option.splits)
  have body: "write_vc_body pvs ?s ?p m (set_text ?p (''--Mdir .'' @ [nl]) w) =
     (Inr (),
      set_text ?p
        ((''--Mdir .'' @ [nl]) @ (if py_in m [''cc'', ''sc''] then ''--'' @ py_str m @ [nl] else []) @
         vc_sources libs (incdirs self) (src_files self) @
         ''--top-module '' @ toplevel self @ [nl] @
         (if lower (py_str (dict_get (tool_options self) ''exe'' PNone)) \<noteq> ''false''
          then ''--exe'' @ [nl] else []) @
         vc_tail pvs (src_files self) (vlogparam self) (vlogdefine self)) w)"
    using write_vc_body_effect [OF lb, of pvs ?p m "''--Mdir .'' @ [nl]" w]
    by (simp add: ex default_mode_fields)
  have "write_config_files pvs self w =
      (case write_mk_files ?s (snd (write_vc_body pvs ?s ?p m (set_text ?p (''--Mdir .'' @ [nl]) w))) of
         (r, w') \<Rightarrow> (r, ?s, w'))"
    unfolding write_config_files_def Let_def
    using mo legal body by (simp add: fopen_set_text fwrite_set_text)
  then have "fs (snd (snd (write_config_files pvs self w))) ?p
      = fs (snd (write_vc_body pvs ?s ?p m (set_text ?p (''--Mdir .'' @ [nl]) w))) ?p"
    using write_mk_files_frame(3) [of ?p ?s] vc_path_differs [of "work_root self" "tool_name self"]
    by (simp add: default_mode_fields case_prod_unfold)
  then show ?thesis
    using body by (simp add: fs_set_text)
qed

lemma logs_fopen: "logs (fopen p w) = logs w"
  by (simp add: fopen_def)

lemma logs_fwrite: "logs (fwrite p s w) = logs w"
  by (simp add: fwrite_def)

lemma logs_foldl_fwrite: "logs (foldl (\<lambda>w d. fwrite p (f d) w) w ds) = logs w"
  by (induction ds arbitrary: w) (simp_all add: logs_fwrite)

lemma logs_foldl_fwrite2:
  "logs (foldl (\<lambda>w d. fwrite p (g d) (fwrite p (f d) w)) w ds) = logs w"
  by (induction ds arbitrary: w) (simp_all add: logs_fwrite)

lemma logs_write_vc_body: "logs (snd (write_vc_body pvs self p mode w)) = logs w"
proof -
  obtain a b c where s: "foldl sort_step ([], [], []) (src_files self) = (a, b, c)"
    by (cases "foldl sort_step ([], [], []) (src_files self)") auto
  show ?thesis
    unfolding write_vc_body_def Let_def
    by (simp add: s logs_fwrite logs_foldl_fwrite logs_foldl_fwrite2 split: sum.splits)
qed

lemma write_config_files_self:
  "fst (snd (write_config_files pvs self w))
     = default_mode (self\<lparr>verilator_file := tool_name self @ ''.vc''\<rparr>)"
  unfolding write_config_files_def Let_def
  by (simp add: case_prod_unfold split: option.splits sum.splits)

lemma logs_write_config_files: "logs (snd (snd (write_config_files pvs self w))) = logs w"
  unfolding write_config_files_def Let_def
  by (simp add: case_prod_unfold logs_write_vc_body write_mk_files_frame logs_fwrite logs_fopen
        split: option.splits sum.splits)

lemma Verilator_build_main_self:
  "fst (snd (Verilator_build_main self w)) = default_mode self"
  unfolding Verilator_build_main_def Let_def
  by (simp split: option.splits)

lemma foldl_snoc_items:
  "foldl (\<lambda>a (k, v). a @ [h k v]) acc xs = acc @ map (\<lambda>(k, v). h k v) xs"
  by (induction xs arbitrary: acc) (simp_all add: case_prod_unfold)

lemma managed_args_eq:
  "managed_args pvs self =
     map (\<lambda>(k, v). ''+'' @ k @ ''='' @ pvs v []) (plusarg self) @
     map (\<lambda>(k, v). ''--'' @ k @ ''='' @ pvs v []) (cmdlinearg self)"
  unfolding managed_args_def
  using foldl_snoc_items [of "\<lambda>k v. ''+'' @ k @ ''='' @ pvs v []"]
    foldl_snoc_items [of "\<lambda>k v. ''--'' @ k @ ''='' @ pvs v []"]
  by simp

lemma Verilator_run_main_effect:
  assumes "py_iter (dict_get (tool_options self) ''run_options'' (PList [])) = Inr ro"
    and "mv = (case tool_options self ''mode'' of None \<Rightarrow> PStr ''cc'' | Some v \<Rightarrow> v)"
  shows "Verilator_run_main pvs self w =
     (Inr (), default_mode (self\<lparr>args := managed_args pvs self @ ro\<rparr>),
      if py_in mv [''dpi-hdr-only'', ''lint-only'', ''preprocess-only'', ''xml-only'']
      then check_managed_parser self w
      else run_tool (''./V'' @ toplevel self) (managed_args pvs self @ ro)
             (logger_info ''Running simulation'' (check_managed_parser self w)))"
  unfolding Verilator_run_main_def Let_def
  using assms by (simp add: default_mode_def managed_args_def split: option.splits)

lemma procs_check_managed_parser: "procs (check_managed_parser self w) = procs w"
  by (simp add: check_managed_parser_def Let_def logger_warning_add_logs procs_add_logs)

lemma fs_check_managed_parser: "fs (check_managed_parser self w) = fs w"
  by (simp add: check_managed_parser_def Let_def logger_warning_add_logs fs_add_logs)

lemma procs_Verilator_run_main_noexec:
  assumes "tool_options self ''mode'' = Some (PStr m)"
    and "m \<in> set [''dpi-hdr-only'', ''lint-only'', ''preprocess-only'', ''xml-only'']"
  shows "procs (snd (snd (Verilator_run_main pvs self w))) = procs w"
  unfolding Verilator_run_main_def Let_def
  using assms
  by (auto simp: default_mode_def procs_check_managed_parser split: option.splits sum.splits)

lemma Verilator_run_main_self:
  assumes "py_iter (dict_get (tool_options self) ''run_options'' (PList [])) = Inr ro"
  shows "tool_options (fst (snd (Verilator_run_main pvs self w))) = tool_options (default_mode self)"
  using Verilator_run_main_effect [OF assms refl, of pvs w]
  by (simp add: default_mode_def)

lemma Verilator_configure_main_illegal:
  assumes "tool_options self ''mode'' = Some m" and "\<not> py_in m modes" and "toplevel self \<noteq> []"
  shows "fst (Verilator_configure_main pvs self w) = Inl (illegal_mode m)"
    and "fs (snd (snd (Verilator_configure_main pvs self w)))
         = (fs w)(os_path_join (work_root self) (tool_name self @ ''.vc'') \<mapsto> ''--Mdir .'' @ [nl])"
    and "procs (snd (snd (Verilator_configure_main pvs self w))) = procs w"
  using assms(3) write_config_files_illegal [OF assms(1,2), of pvs]
  by (simp_all add: Verilator_configure_main_def Let_def fs_set_text
        procs_set_text fs_check_managed_parser procs_check_managed_parser logger_warning_add_logs
        fs_add_logs procs_add_logs)

lemma src_file_filter_cases:
  "get_file_type f \<in> set [''verilogSource'', ''systemVerilogSource'', ''vhdlSource'', ''PDC'', ''SDC'']
     \<Longrightarrow> src_file_filter get_file_type f w =
         (''prj_add_source '' @ name f @ '' -work '' @
            (if logical_name f \<noteq> [] then logical_name f else ''work''), w)"
  "get_file_type f = ''tclSource'' \<Longrightarrow> src_file_filter get_file_type f w = (''source '' @ name f, w)"
  "get_file_type f \<in> set [''user'', ''LPF''] \<Longrightarrow> src_file_filter get_file_type f w = ([], w)"
  "get_file_type f \<notin> set [''verilogSource'', ''systemVerilogSource'', ''vhdlSource'', ''PDC'',
                            ''SDC'', ''tclSource'', ''user'', ''LPF'']
     \<Longrightarrow> src_file_filter get_file_type f w =
         ([], w\<lparr>logs := logs w @
            [(WARNING, name f @ '' has unknown file type '' @ [sq] @ file_type f @ [sq])]\<rparr>)"
  by (auto simp: src_file_filter_def Let_def file_types_def work_source_def logger_warning_def)

lemma sort_step_unrecognised:
  "\<not> startswith (file_type f) ''systemVerilogSource'' \<Longrightarrow>
   \<not> startswith (file_type f) ''verilogSource'' \<Longrightarrow>
   file_type f \<notin> set [''cppSource'', ''systemCSource'', ''cSource'', ''vlt''] \<Longrightarrow>
   sort_step st f = st"
  by (cases st) (auto simp: sort_step_def)

lemma Verilator_build_main_lint:
  assumes "tool_options self ''mode'' = Some (PStr ''lint-only'')"
  shows "procs (snd (snd (Verilator_build_main self w)))
     = procs w @ [(''make'', [''lint-only''])] @
       (if option_true self ''gen-xml'' then [(''make'', [''xml-only''])] else []) @
       (if option_true self ''gen-dpi-hdr'' then [(''make'', [''dpi-hdr-only''])] else []) @
       (if option_true self ''gen-preprocess'' then [(''make'', [''preprocess-only''])] else [])"
proof -
  have d: "default_mode self = self"
    using assms by (simp add: default_mode_def)
  show ?thesis
    unfolding Verilator_build_main_def Let_def d
    by (simp add: assms modes_def procs_run_tool logger_info_add_logs procs_add_logs)
qed


section \<open>Properties\<close>

subsection \<open>The command graph writer\<close>

text \<open>
  C8, as amended. For every command list and every default target that is not
  empty and holds no line break, writing the build file succeeds and reading
  the target back from the first \<^verbatim>\<open>all: \<close> line of the file gives that target.
\<close>

theorem write_all_roundtrip:
  assumes "target \<noteq> []" and "nl \<notin> set target"
  shows "fst (EdaCommands_write (set_default_target target (EdaCommands_init\<lparr>commands := cmds\<rparr>)) outfile w) = Inr ()
       \<and> map_option parse_all
           (fs (snd (EdaCommands_write
                  (set_default_target target (EdaCommands_init\<lparr>commands := cmds\<rparr>)) outfile w)) outfile)
         = Some (Some target)"
  using assms parse_all_header [of target "concat (map command_text cmds)"]
  by (simp add: EdaCommands_write_text set_default_target_def EdaCommands_init_def fs_set_text)

theorem write_all_roundtrip_witness:
  "fst (EdaCommands_write (set_default_target ''a.out''
          (add [''cc'', ''-o'', ''a.out'', ''a.c''] [''a.out''] [''a.c''] [] EdaCommands_init))
          ''Makefile'' world0) = Inr ()
   \<and> map_option parse_all
        (fs (snd (EdaCommands_write (set_default_target ''a.out''
          (add [''cc'', ''-o'', ''a.out'', ''a.c''] [''a.out''] [''a.c''] [] EdaCommands_init))
          ''Makefile'' world0)) ''Makefile'')
      = Some (Some ''a.out'')"
proof -
  have e: "add [''cc'', ''-o'', ''a.out'', ''a.c''] [''a.out''] [''a.c''] [] EdaCommands_init
     = EdaCommands_init\<lparr>commands := [\<lparr>command = [''cc'', ''-o'', ''a.out'', ''a.c''],
          targets = [''a.out''], depends = [''a.c''], order_only_deps = []\<rparr>]\<rparr>"
    by (simp add: add_def EdaCommands_init_def)
  have n: "nl \<notin> set ''a.out''" by (simp add: nl_def)
  show ?thesis
    unfolding e using write_all_roundtrip [OF _ n, of _ "''Makefile''" world0] by simp
qed

text \<open>
  C8 as stated fails: an empty target makes the write raise, and of a target
  with a line break only the part before the break is read back.
\<close>

theorem write_all_roundtrip_counterexample:
  "fst (EdaCommands_write (set_default_target [] EdaCommands_init) ''Makefile'' world0) \<noteq> Inr ()
   \<and> map_option parse_all
        (fs (snd (EdaCommands_write (set_default_target (''a'' @ [nl] @ ''b'') EdaCommands_init)
           ''Makefile'' world0)) ''Makefile'')
      = Some (Some ''a'')
   \<and> ''a'' \<noteq> ''a'' @ [nl] @ ''b''"
  by (simp add: EdaCommands_write_text set_default_target_def EdaCommands_init_def fs_set_text
        parse_all_def startswith_def nl_def)

text \<open>
  C9. Writing when no default target has been designated raises, for every
  command list, and starts no process: AttributeError when the attribute was
  never set, the RuntimeError of the check when it was set to an empty target.
\<close>

theorem write_missing_default_target_raises:
  "fst (EdaCommands_write (self\<lparr>default_target := None\<rparr>) outfile w)
       = Inl (AttributeError ([sq] @ ''EdaCommands'' @ [sq] @ '' object has no attribute '' @
                              [sq] @ ''default_target'' @ [sq]))
   \<and> procs (snd (EdaCommands_write (self\<lparr>default_target := None\<rparr>) outfile w)) = procs w
   \<and> fst (EdaCommands_write (set_default_target [] self) outfile w)
       = Inl (RuntimeError ''Internal Edalize error. Missing default target'')
   \<and> procs (snd (EdaCommands_write (set_default_target [] self) outfile w)) = procs w"
  by (simp add: EdaCommands_write_text set_default_target_def procs_set_text)

subsection \<open>The tool-project backend\<close>

text \<open>
  C1, on the code. With two PDC files in the file list the project script has an
  add-source line for each of them, in file-list order, although the warning
  that is logged says that only the first one will be used: the name the first
  loop of \<^verbatim>\<open>configure_main\<close> keeps in \<^verbatim>\<open>pdc_file\<close> is never read again.
\<close>

theorem radiant_two_pdc_files:
  "fs (snd (Radiant_configure_main file_type param_value_str_spec
        (edatool_init\<lparr>tool_name := ''proj'', work_root := ''build'', toplevel := ''top'',
           tool_options := [''part'' \<mapsto> PStr ''LIFCL-40-9BG400C''],
           src_files := [\<lparr>name = ''a.pdc'', file_type = ''PDC'', logical_name = []\<rparr>,
                         \<lparr>name = ''b.pdc'', file_type = ''PDC'', logical_name = []\<rparr>]\<rparr>) world0))
     ''build/proj.tcl''
   = Some (''#Generated by Edalize'' @ [nl] @
           ''prj_create -name proj -impl '' @ [dq] @ ''impl'' @ [dq] @ '' -dev LIFCL-40-9BG400C'' @ [nl] @
           ''prj_set_impl_opt top top'' @ [nl] @
           ''prj_add_source a.pdc -work work'' @ [nl] @
           ''prj_add_source b.pdc -work work'' @ [nl] @
           ''prj_save'' @ [nl] @ ''prj_close'' @ [nl])
   \<and> logs (snd (Radiant_configure_main file_type param_value_str_spec
        (edatool_init\<lparr>tool_name := ''proj'', work_root := ''build'', toplevel := ''top'',
           tool_options := [''part'' \<mapsto> PStr ''LIFCL-40-9BG400C''],
           src_files := [\<lparr>name = ''a.pdc'', file_type = ''PDC'', logical_name = []\<rparr>,
                         \<lparr>name = ''b.pdc'', file_type = ''PDC'', logical_name = []\<rparr>]\<rparr>) world0))
     = [(WARNING, ''Multiple PDC files detected. Only the first one will be used'')]"
proof -
  let ?self = "edatool_init\<lparr>tool_name := ''proj'', work_root := ''build'', toplevel := ''top'',
           tool_options := [''part'' \<mapsto> PStr ''LIFCL-40-9BG400C''],
           src_files := [\<lparr>name = ''a.pdc'', file_type = ''PDC'', logical_name = []\<rparr>,
                         \<lparr>name = ''b.pdc'', file_type = ''PDC'', logical_name = []\<rparr>]\<rparr>"
  have p: "tool_options ?self ''part'' = Some (PStr ''LIFCL-40-9BG400C'')"
    by simp
  have a: "fs (snd (Radiant_configure_main file_type param_value_str_spec ?self world0))
             ''build/proj.tcl'' = Some (tcl_script file_type param_value_str_spec ?self (PStr ''LIFCL-40-9BG400C''))"
    using Radiant_script [OF p, of file_type param_value_str_spec world0]
    by (simp add: edatool_init_def os_path_join_def startswith_def)
  have b: "tcl_script file_type param_value_str_spec ?self (PStr ''LIFCL-40-9BG400C'')
      = ''#Generated by Edalize'' @ [nl] @
           ''prj_create -name proj -impl '' @ [dq] @ ''impl'' @ [dq] @ '' -dev LIFCL-40-9BG400C'' @ [nl] @
           ''prj_set_impl_opt top top'' @ [nl] @
           ''prj_add_source a.pdc -work work'' @ [nl] @
           ''prj_add_source b.pdc -work work'' @ [nl] @
           ''prj_save'' @ [nl] @ ''prj_close'' @ [nl]"
    by (simp add: tcl_script_def edatool_init_def TCL_TEMPLATE_def replace_char_def source_lines_def
          directive_def src_file_filter_def file_types_def work_source_def)
  have c: "logs (snd (Radiant_configure_main file_type param_value_str_spec ?self world0))
      = [(WARNING, ''Multiple PDC files detected. Only the first one will be used'')]"
    using Radiant_logs [OF p, of file_type param_value_str_spec world0]
    by (simp add: edatool_init_def pdc_warnings_def pdc_step_def type_warnings_def
          src_file_filter_def file_types_def logs_world0 logger_warning_add_logs logs_add_logs)
  show ?thesis using a b c by simp
qed

text \<open>
  C4. Whenever the part option is present, the project script is the create and
  top-level lines, the include-path line if there are include directories, then
  one \<^verbatim>\<open>HDL_PARAM\<close> line for \<open>generic\<close> if it is not empty, one \<^verbatim>\<open>HDL_PARAM\<close> line
  for \<open>vlogparam\<close> if it is not empty, one \<^verbatim>\<open>VERILOG_DIRECTIVES\<close> line for
  \<open>vlogdefine\<close> if it is not empty, the source lines, and the save and close
  lines. An empty dictionary contributes nothing; when \<open>generic\<close> and \<open>vlogparam\<close>
  are both non-empty the two \<^verbatim>\<open>HDL_PARAM\<close> lines follow one another, the one of
  \<open>generic\<close> first, and neither is merged into the other.
\<close>

theorem radiant_parameter_directives:
  assumes "tool_options self ''part'' = Some part"
  shows "fs (snd (Radiant_configure_main get_file_type param_value_str self w))
           (os_path_join (work_root self) (tool_name self @ ''.tcl''))
         = Some
            (TCL_TEMPLATE (replace_char CHR ''.'' CHR ''_'' (tool_name self)) (py_str part)
               (toplevel self) @
             (if incdirs self = [] then []
              else ''prj_set_impl_opt {include path} {'' @ join '' '' (incdirs self) @ ''}'' @ [nl]) @
             (if generic self = [] then []
              else ''prj_set_impl_opt HDL_PARAM {'' @
                   join '';'' (map (\<lambda>(k, v). k @ ''='' @ py_str v) (generic self)) @ ''}'' @ [nl]) @
             (if vlogparam self = [] then []
              else ''prj_set_impl_opt HDL_PARAM {'' @
                   join '';'' (map (\<lambda>(k, v). k @ ''='' @ param_value_str v [dq]) (vlogparam self)) @
                   ''}'' @ [nl]) @
             (if vlogdefine self = [] then []
              else ''prj_set_impl_opt VERILOG_DIRECTIVES {'' @
                   join '';'' (map (\<lambda>(k, v). k @ ''='' @ py_str v) (vlogdefine self)) @ ''}'' @ [nl]) @
             source_lines get_file_type (src_files self) @
             ''prj_save'' @ [nl] @ ''prj_close'' @ [nl])"
  using Radiant_script [OF assms, of get_file_type param_value_str w]
  by (simp add: tcl_script_def param_items_def)

theorem radiant_parameter_directives_witness:
  "fs (snd (Radiant_configure_main file_type param_value_str_spec
        (edatool_init\<lparr>tool_name := ''proj'', work_root := ''build'', toplevel := ''top'',
           tool_options := [''part'' \<mapsto> PStr ''LIFCL-40-9BG400C''],
           generic := [(''DEPTH'', PInt 4)], vlogparam := [(''WIDTH'', PInt 8)]\<rparr>) world0))
     ''build/proj.tcl''
   = Some (''#Generated by Edalize'' @ [nl] @
           ''prj_create -name proj -impl '' @ [dq] @ ''impl'' @ [dq] @ '' -dev LIFCL-40-9BG400C'' @ [nl] @
           ''prj_set_impl_opt top top'' @ [nl] @
           ''prj_set_impl_opt HDL_PARAM {DEPTH=4}'' @ [nl] @
           ''prj_set_impl_opt HDL_PARAM {WIDTH=8}'' @ [nl] @
           ''prj_save'' @ [nl] @ ''prj_close'' @ [nl])"
  using radiant_parameter_directives [of
      "edatool_init\<lparr>tool_name := ''proj'', work_root := ''build'', toplevel := ''top'',
           tool_options := [''part'' \<mapsto> PStr ''LIFCL-40-9BG400C''],
           generic := [(''DEPTH'', PInt 4)], vlogparam := [(''WIDTH'', PInt 8)]\<rparr>"
      "PStr ''LIFCL-40-9BG400C''" file_type param_value_str_spec world0]
  by (simp add: edatool_init_def os_path_join_def startswith_def TCL_TEMPLATE_def replace_char_def
        source_lines_def param_value_str_spec_def show_int_def)

text \<open>
  C5. For the file list of the single Verilog source \<^verbatim>\<open>top.v\<close>, top level \<^verbatim>\<open>top\<close>
  and part \<^verbatim>\<open>LIFCL-40-9BG400C\<close>, with no include directories and no parameters
  or defines, and file-type detection returning the declared type of that file,
  the project script is exactly: the header comment, the create line with the
  project name and the device, the top-level line, one add-source line for
  \<^verbatim>\<open>top.v\<close> ending in \<^verbatim>\<open>-work work\<close>, the save line and the close line.
\<close>

theorem radiant_scenario_A:
  assumes "get_file_type \<lparr>name = ''top.v'', file_type = ''verilogSource'', logical_name = []\<rparr>
           = ''verilogSource''"
  shows "fs (snd (Radiant_configure_main get_file_type param_value_str
           (self\<lparr>toplevel := ''top'',
                 tool_options := (tool_options self)(''part'' \<mapsto> PStr ''LIFCL-40-9BG400C''),
                 src_files := [\<lparr>name = ''top.v'', file_type = ''verilogSource'', logical_name = []\<rparr>],
                 incdirs := [], generic := [], vlogparam := [], vlogdefine := []\<rparr>) w))
           (os_path_join (work_root self) (tool_name self @ ''.tcl''))
         = Some (''#Generated by Edalize'' @ [nl] @
                 ''prj_create -name '' @ replace_char CHR ''.'' CHR ''_'' (tool_name self) @
                   '' -impl '' @ [dq] @ ''impl'' @ [dq] @ '' -dev LIFCL-40-9BG400C'' @ [nl] @
                 ''prj_set_impl_opt top top'' @ [nl] @
                 ''prj_add_source top.v -work work'' @ [nl] @
                 ''prj_save'' @ [nl] @ ''prj_close'' @ [nl])"
  using Radiant_script [of
      "self\<lparr>toplevel := ''top'',
                 tool_options := (tool_options self)(''part'' \<mapsto> PStr ''LIFCL-40-9BG400C''),
                 src_files := [\<lparr>name = ''top.v'', file_type = ''verilogSource'', logical_name = []\<rparr>],
                 incdirs := [], generic := [], vlogparam := [], vlogdefine := []\<rparr>"
      "PStr ''LIFCL-40-9BG400C''" get_file_type param_value_str w] assms
  by (simp add: tcl_script_def TCL_TEMPLATE_def source_lines_def directive_def src_file_filter_def
        file_types_def work_source_def)

theorem radiant_scenario_A_witness:
  "fs (snd (Radiant_configure_main file_type param_value_str_spec
           (edatool_init\<lparr>tool_name := ''top_impl'', work_root := ''build'', toplevel := ''top'',
                 tool_options := [''part'' \<mapsto> PStr ''LIFCL-40-9BG400C''],
                 src_files := [\<lparr>name = ''top.v'', file_type = ''verilogSource'', logical_name = []\<rparr>]\<rparr>) world0))
           ''build/top_impl.tcl''
         = Some (''#Generated by Edalize'' @ [nl] @
                 ''prj_create -name top_impl -impl '' @ [dq] @ ''impl'' @ [dq] @
                   '' -dev LIFCL-40-9BG400C'' @ [nl] @
                 ''prj_set_impl_opt top top'' @ [nl] @
                 ''prj_add_source top.v -work work'' @ [nl] @
                 ''prj_save'' @ [nl] @ ''prj_close'' @ [nl])"
  using radiant_scenario_A [of file_type param_value_str_spec
      "edatool_init\<lparr>tool_name := ''top_impl'', work_root := ''build''\<rparr>" world0]
  by (simp add: edatool_init_def os_path_join_def startswith_def replace_char_def)

subsection \<open>The simulator-configuration backend\<close>

text \<open>
  C2, as amended. For every option set whose mode is not one of the eight
  allowed values, configuration (with a top-level module given) raises the
  RuntimeError that names the value and the allowed set; by then the command
  file has been opened and holds its first line, \<^verbatim>\<open>--Mdir .\<close>, and nothing else
  on disk has changed: no build file and no variables file is written, and no
  process is started.
\<close>

theorem illegal_mode_leaves_command_file:
  assumes "tool_options self ''mode'' = Some m" and "\<not> py_in m modes" and "toplevel self \<noteq> []"
  shows "fst (Verilator_configure_main param_value_str self w)
         = Inl (RuntimeError (''Illegal verilator mode '' @ py_str m @
             ''. Allowed values are binary, cc, dpi-hdr-only, lint-only, none, preprocess-only, sc, xml-only''))
       \<and> fs (snd (snd (Verilator_configure_main param_value_str self w)))
         = (fs w)(os_path_join (work_root self) (tool_name self @ ''.vc'') \<mapsto> ''--Mdir .'' @ [nl])
       \<and> procs (snd (snd (Verilator_configure_main param_value_str self w))) = procs w"
  using Verilator_configure_main_illegal [OF assms, of param_value_str w]
  by (simp add: illegal_mode_def modes_def)

theorem illegal_mode_leaves_command_file_witness:
  "fst (Verilator_configure_main param_value_str_spec
          (edatool_init\<lparr>tool_name := ''proj'', work_root := ''build'', toplevel := ''top'',
             tool_options := [''mode'' \<mapsto> PStr ''fast'']\<rparr>) world0)
     = Inl (RuntimeError ''Illegal verilator mode fast. Allowed values are binary, cc, dpi-hdr-only, lint-only, none, preprocess-only, sc, xml-only'')
   \<and> fs (snd (snd (Verilator_configure_main param_value_str_spec
          (edatool_init\<lparr>tool_name := ''proj'', work_root := ''build'', toplevel := ''top'',
             tool_options := [''mode'' \<mapsto> PStr ''fast'']\<rparr>) world0)))
     = [''build/proj.vc'' \<mapsto> ''--Mdir .'' @ [nl]]
   \<and> procs (snd (snd (Verilator_configure_main param_value_str_spec
          (edatool_init\<lparr>tool_name := ''proj'', work_root := ''build'', toplevel := ''top'',
             tool_options := [''mode'' \<mapsto> PStr ''fast'']\<rparr>) world0))) = []"
  using illegal_mode_leaves_command_file [of
      "edatool_init\<lparr>tool_name := ''proj'', work_root := ''build'', toplevel := ''top'',
             tool_options := [''mode'' \<mapsto> PStr ''fast'']\<rparr>" "PStr ''fast''"
      param_value_str_spec world0]
  by (simp add: edatool_init_def modes_def world0_def os_path_join_def startswith_def)

text \<open>
  C2 as stated fails: the disk is not left as it was. In a work root that had
  no command file, configuration with the mode \<^verbatim>\<open>fast\<close> leaves one behind.
\<close>

theorem illegal_mode_counterexample:
  "fs world0 ''build/proj.vc'' = None
   \<and> fs (snd (snd (Verilator_configure_main param_value_str_spec
          (edatool_init\<lparr>tool_name := ''proj'', work_root := ''build'', toplevel := ''top'',
             tool_options := [''mode'' \<mapsto> PStr ''fast'']\<rparr>) world0))) ''build/proj.vc''
     = Some (''--Mdir .'' @ [nl])"
  using Verilator_configure_main_illegal(2) [of
      "edatool_init\<lparr>tool_name := ''proj'', work_root := ''build'', toplevel := ''top'',
             tool_options := [''mode'' \<mapsto> PStr ''fast'']\<rparr>" "PStr ''fast''"
      param_value_str_spec world0]
  by (simp add: edatool_init_def modes_def world0_def os_path_join_def startswith_def)

text \<open>
  C3, as amended. In the tool-project backend the classification of a file is
  a total function of its detected type, its name, its logical name and, for
  the warning, its declared type: the five HDL and constraint types give an
  add-source line with the work library (the logical name, or \<^verbatim>\<open>work\<close>),
  \<^verbatim>\<open>tclSource\<close> gives a source line, \<^verbatim>\<open>user\<close> and \<^verbatim>\<open>LPF\<close> give no line and no
  log record, and any other type gives no line and one warning that names the
  file and its declared type. The simulator backend sorts the files by rules of
  its own (a prefix match for the Verilog types); there a file of a type it
  does not know is added to none of its three lists, so it contributes no line.
\<close>

theorem classification_policy:
  "(get_file_type f \<in> set [''verilogSource'', ''systemVerilogSource'', ''vhdlSource'', ''PDC'', ''SDC'']
      \<longrightarrow> src_file_filter get_file_type f w =
         (''prj_add_source '' @ name f @ '' -work '' @
            (if logical_name f \<noteq> [] then logical_name f else ''work''), w))
   \<and> (get_file_type f = ''tclSource''
      \<longrightarrow> src_file_filter get_file_type f w = (''source '' @ name f, w))
   \<and> (get_file_type f \<in> set [''user'', ''LPF'']
      \<longrightarrow> src_file_filter get_file_type f w = ([], w))
   \<and> (get_file_type f \<notin> set [''verilogSource'', ''systemVerilogSource'', ''vhdlSource'', ''PDC'',
                              ''SDC'', ''tclSource'', ''user'', ''LPF'']
      \<longrightarrow> src_file_filter get_file_type f w =
         ([], w\<lparr>logs := logs w @
            [(WARNING, name f @ '' has unknown file type '' @ [sq] @ file_type f @ [sq])]\<rparr>))
   \<and> (\<not> startswith (file_type f) ''systemVerilogSource''
        \<and> \<not> startswith (file_type f) ''verilogSource''
        \<and> file_type f \<notin> set [''cppSource'', ''systemCSource'', ''cSource'', ''vlt'']
      \<longrightarrow> sort_step st f = st)"
  using src_file_filter_cases [of get_file_type f w] sort_step_unrecognised [of f st]
  by blast

theorem classification_policy_witness:
  "src_file_filter file_type \<lparr>name = ''x.foo'', file_type = ''foo'', logical_name = []\<rparr> world0
     = ([], world0\<lparr>logs := [(WARNING, ''x.foo has unknown file type '' @ [sq] @ ''foo'' @ [sq])]\<rparr>)
   \<and> src_file_filter file_type \<lparr>name = ''pins.lpf'', file_type = ''LPF'', logical_name = []\<rparr> world0
     = ([], world0)
   \<and> src_file_filter file_type \<lparr>name = ''a.vhd'', file_type = ''vhdlSource'', logical_name = ''lib''\<rparr> world0
     = (''prj_add_source a.vhd -work lib'', world0)
   \<and> sort_step ([], [''top.v''], []) \<lparr>name = ''x.foo'', file_type = ''foo'', logical_name = []\<rparr>
     = ([], [''top.v''], [])"
proof -
  note c = classification_policy [of file_type _ world0]
  have 1: "src_file_filter file_type \<lparr>name = ''x.foo'', file_type = ''foo'', logical_name = []\<rparr> world0
     = ([], world0\<lparr>logs := [(WARNING, ''x.foo has unknown file type '' @ [sq] @ ''foo'' @ [sq])]\<rparr>)"
    using c [of "\<lparr>name = ''x.foo'', file_type = ''foo'', logical_name = []\<rparr>"]
    by (simp add: world0_def)
  have 2: "src_file_filter file_type \<lparr>name = ''pins.lpf'', file_type = ''LPF'', logical_name = []\<rparr> world0
     = ([], world0)"
    using c [of "\<lparr>name = ''pins.lpf'', file_type = ''LPF'', logical_name = []\<rparr>"]
    by simp
  have 3: "src_file_filter file_type \<lparr>name = ''a.vhd'', file_type = ''vhdlSource'', logical_name = ''lib''\<rparr> world0
     = (''prj_add_source a.vhd -work lib'', world0)"
    using c [of "\<lparr>name = ''a.vhd'', file_type = ''vhdlSource'', logical_name = ''lib''\<rparr>"]
    by simp
  have 4: "sort_step ([], [''top.v''], []) \<lparr>name = ''x.foo'', file_type = ''foo'', logical_name = []\<rparr>
     = ([], [''top.v''], [])"
    using c [of "\<lparr>name = ''x.foo'', file_type = ''foo'', logical_name = []\<rparr>" "([], [''top.v''], [])"]
    by (simp add: startswith_def)
  show ?thesis using 1 2 3 4 by simp
qed

text \<open>
  C3 as stated fails: the simulator backend logs nothing for a file of unknown
  type, where the tool-project backend logs the warning.
\<close>

theorem classification_policy_counterexample:
  "logs (snd (snd (write_config_files param_value_str_spec
     (edatool_init\<lparr>tool_name := ''proj'', work_root := ''build'', toplevel := ''top'',
        src_files := [\<lparr>name = ''x.foo'', file_type = ''foo'', logical_name = []\<rparr>]\<rparr>) world0))) = []
   \<and> logs (snd (src_file_filter file_type
        \<lparr>name = ''x.foo'', file_type = ''foo'', logical_name = []\<rparr> world0))
     = [(WARNING, ''x.foo has unknown file type '' @ [sq] @ ''foo'' @ [sq])]"
  by (simp add: logs_write_config_files logs_world0 src_file_filter_def file_types_def
        logger_warning_def world0_def)

text \<open>
  C6. Provided the \<^verbatim>\<open>libs\<close> option, if present, can be iterated: there are texts
  \<open>X\<close> and \<open>Y\<close> such that, whatever the \<^verbatim>\<open>mode\<close> and \<^verbatim>\<open>exe\<close> options are set to
  (or left unset), as long as the mode is legal, the command file is
  \<^verbatim>\<open>--Mdir .\<close>, then the mode line if and only if the mode is \<^verbatim>\<open>cc\<close> or \<^verbatim>\<open>sc\<close> (an
  unset mode counts as \<^verbatim>\<open>cc\<close>), then \<open>X\<close>, the top-module line, the \<^verbatim>\<open>--exe\<close> line
  unless the \<^verbatim>\<open>exe\<close> option stringified and lower-cased is \<^verbatim>\<open>false\<close> (an unset
  option stringifies to \<^verbatim>\<open>None\<close>, so the line is there), then \<open>Y\<close>.
\<close>

theorem vc_mode_and_exe_lines:
  assumes "(case tool_options self ''libs'' of None \<Rightarrow> Inr [] | Some v \<Rightarrow> py_iter v) = Inr libs"
  shows "\<exists>X Y. \<forall>mo eo.
     py_in (case mo of None \<Rightarrow> PStr ''cc'' | Some m \<Rightarrow> m) modes \<longrightarrow>
     fs (snd (snd (write_config_files param_value_str
          (self\<lparr>tool_options := (tool_options self)(''mode'' := mo, ''exe'' := eo)\<rparr>) w)))
        (os_path_join (work_root self) (tool_name self @ ''.vc''))
     = Some (''--Mdir .'' @ [nl] @
             (if py_in (case mo of None \<Rightarrow> PStr ''cc'' | Some m \<Rightarrow> m) [''cc'', ''sc'']
              then ''--'' @ py_str (case mo of None \<Rightarrow> PStr ''cc'' | Some m \<Rightarrow> m) @ [nl]
              else []) @
             X @
             ''--top-module '' @ toplevel self @ [nl] @
             (if lower (py_str (case eo of None \<Rightarrow> PNone | Some e \<Rightarrow> e)) = ''false''
              then [] else ''--exe'' @ [nl]) @
             Y)"
proof (intro exI allI impI)
  fix mo eo
  let ?s = "self\<lparr>tool_options := (tool_options self)(''mode'' := mo, ''exe'' := eo)\<rparr>"
  let ?m = "case mo of None \<Rightarrow> PStr ''cc'' | Some m \<Rightarrow> m"
  assume legal: "py_in ?m modes"
  have l: "(case tool_options ?s ''libs'' of None \<Rightarrow> Inr [] | Some v \<Rightarrow> py_iter v) = Inr libs"
    using assms by simp
  have m: "?m = (case tool_options ?s ''mode'' of None \<Rightarrow> PStr ''cc'' | Some m \<Rightarrow> m)"
    by simp
  have e: "dict_get (tool_options ?s) ''exe'' PNone = (case eo of None \<Rightarrow> PNone | Some e \<Rightarrow> e)"
    by (simp add: dict_get_def)
  show "fs (snd (snd (write_config_files param_value_str ?s w)))
        (os_path_join (work_root self) (tool_name self @ ''.vc''))
     = Some (''--Mdir .'' @ [nl] @
             (if py_in ?m [''cc'', ''sc''] then ''--'' @ py_str ?m @ [nl] else []) @
             vc_sources libs (incdirs self) (src_files self) @
             ''--top-module '' @ toplevel self @ [nl] @
             (if lower (py_str (case eo of None \<Rightarrow> PNone | Some e \<Rightarrow> e)) = ''false''
              then [] else ''--exe'' @ [nl]) @
             vc_tail param_value_str (src_files self) (vlogparam self) (vlogdefine self))"
    using write_config_files_vc_text [OF l m legal, of param_value_str w] e
    by simp
qed

theorem vc_mode_and_exe_lines_witness:
  "\<exists>X Y. fs (snd (snd (write_config_files param_value_str_spec
          (edatool_init\<lparr>tool_name := ''proj'', work_root := ''build'', toplevel := ''top'',
             src_files := [\<lparr>name = ''top.v'', file_type = ''verilogSource'', logical_name = []\<rparr>]\<rparr>)
          world0)))
        ''build/proj.vc''
     = Some (''--Mdir .'' @ [nl] @ ''--cc'' @ [nl] @ X @ ''--top-module top'' @ [nl] @
             ''--exe'' @ [nl] @ Y)"
proof -
  let ?self = "edatool_init\<lparr>tool_name := ''proj'', work_root := ''build'', toplevel := ''top'',
             src_files := [\<lparr>name = ''top.v'', file_type = ''verilogSource'', logical_name = []\<rparr>]\<rparr>"
  have l: "(case tool_options ?self ''libs'' of None \<Rightarrow> Inr [] | Some v \<Rightarrow> py_iter v) = Inr []"
    by (simp add: edatool_init_def)
  have s: "?self\<lparr>tool_options := (tool_options ?self)(''mode'' := None, ''exe'' := None)\<rparr> = ?self"
    by (simp add: edatool_init_def)
  obtain X Y where "\<forall>mo eo.
     py_in (case mo of None \<Rightarrow> PStr ''cc'' | Some m \<Rightarrow> m) modes \<longrightarrow>
     fs (snd (snd (write_config_files param_value_str_spec
          (?self\<lparr>tool_options := (tool_options ?self)(''mode'' := mo, ''exe'' := eo)\<rparr>) world0)))
        (os_path_join (work_root ?self) (tool_name ?self @ ''.vc''))
     = Some (''--Mdir .'' @ [nl] @
             (if py_in (case mo of None \<Rightarrow> PStr ''cc'' | Some m \<Rightarrow> m) [''cc'', ''sc'']
              then ''--'' @ py_str (case mo of None \<Rightarrow> PStr ''cc'' | Some m \<Rightarrow> m) @ [nl]
              else []) @
             X @
             ''--top-module '' @ toplevel ?self @ [nl] @
             (if lower (py_str (case eo of None \<Rightarrow> PNone | Some e \<Rightarrow> e)) = ''false''
              then [] else ''--exe'' @ [nl]) @
             Y)"
    using vc_mode_and_exe_lines [OF l, of param_value_str_spec world0] by blast
  from this [rule_format, of None None] have
    "fs (snd (snd (write_config_files param_value_str_spec ?self world0))) ''build/proj.vc''
     = Some (''--Mdir .'' @ [nl] @ ''--cc'' @ [nl] @ X @ ''--top-module top'' @ [nl] @
             ''--exe'' @ [nl] @ Y)"
    unfolding s
    by (simp add: modes_def os_path_join_def startswith_def lower_def char_lower_def)
  then show ?thesis by blast
qed

text \<open>
  C7, as amended. When \<^verbatim>\<open>run_options\<close> is absent or a list, the arguments \<^verbatim>\<open>run\<close>
  assembles are the plusargs as \<^verbatim>\<open>+key=value\<close>, then the command-line arguments
  as \<^verbatim>\<open>--key=value\<close>, then the run options as they are. For the modes
  \<^verbatim>\<open>dpi-hdr-only\<close>, \<^verbatim>\<open>lint-only\<close>, \<^verbatim>\<open>preprocess-only\<close> and \<^verbatim>\<open>xml-only\<close>, \<^verbatim>\<open>run\<close> starts
  no process; otherwise it starts the model with those arguments. For the mode
  \<^verbatim>\<open>lint-only\<close>, \<^verbatim>\<open>build\<close> invokes make on the \<^verbatim>\<open>lint-only\<close> target, and after it
  once more for each of \<^verbatim>\<open>gen-xml\<close>, \<^verbatim>\<open>gen-dpi-hdr\<close> and \<^verbatim>\<open>gen-preprocess\<close> whose
  value stringified and lower-cased is \<^verbatim>\<open>true\<close>.
\<close>

theorem run_arguments_and_lint_only:
  "(dict_get (tool_options self) ''run_options'' (PList []) = PList run_options \<longrightarrow>
      args (fst (snd (Verilator_run_main param_value_str self w)))
        = map (\<lambda>(k, v). ''+'' @ k @ ''='' @ param_value_str v []) (plusarg self) @
          map (\<lambda>(k, v). ''--'' @ k @ ''='' @ param_value_str v []) (cmdlinearg self) @
          run_options)
   \<and> (tool_options self ''mode'' = Some (PStr m)
        \<and> m \<in> set [''dpi-hdr-only'', ''lint-only'', ''preprocess-only'', ''xml-only''] \<longrightarrow>
      procs (snd (snd (Verilator_run_main param_value_str self w))) = procs w)
   \<and> (dict_get (tool_options self) ''run_options'' (PList []) = PList run_options
        \<and> \<not> py_in (case tool_options self ''mode'' of None \<Rightarrow> PStr ''cc'' | Some v \<Rightarrow> v)
               [''dpi-hdr-only'', ''lint-only'', ''preprocess-only'', ''xml-only''] \<longrightarrow>
      procs (snd (snd (Verilator_run_main param_value_str self w)))
        = procs w @
          [(''./V'' @ toplevel self,
            map (\<lambda>(k, v). ''+'' @ k @ ''='' @ param_value_str v []) (plusarg self) @
            map (\<lambda>(k, v). ''--'' @ k @ ''='' @ param_value_str v []) (cmdlinearg self) @
            run_options)])
   \<and> (tool_options self ''mode'' = Some (PStr ''lint-only'') \<longrightarrow>
      procs (snd (snd (Verilator_build_main self w)))
        = procs w @ [(''make'', [''lint-only''])] @
          (if option_true self ''gen-xml'' then [(''make'', [''xml-only''])] else []) @
          (if option_true self ''gen-dpi-hdr'' then [(''make'', [''dpi-hdr-only''])] else []) @
          (if option_true self ''gen-preprocess'' then [(''make'', [''preprocess-only''])] else []))"
proof (intro conjI impI)
  assume r: "dict_get (tool_options self) ''run_options'' (PList []) = PList run_options"
  then have i: "py_iter (dict_get (tool_options self) ''run_options'' (PList [])) = Inr run_options"
    by simp
  show "args (fst (snd (Verilator_run_main param_value_str self w)))
        = map (\<lambda>(k, v). ''+'' @ k @ ''='' @ param_value_str v []) (plusarg self) @
          map (\<lambda>(k, v). ''--'' @ k @ ''='' @ param_value_str v []) (cmdlinearg self) @
          run_options"
    using Verilator_run_main_effect [OF i refl, of param_value_str w]
    by (simp add: default_mode_fields managed_args_eq)
next
  assume "tool_options self ''mode'' = Some (PStr m)
        \<and> m \<in> set [''dpi-hdr-only'', ''lint-only'', ''preprocess-only'', ''xml-only'']"
  then show "procs (snd (snd (Verilator_run_main param_value_str self w))) = procs w"
    using procs_Verilator_run_main_noexec [of self m param_value_str w] by blast
next
  assume a: "dict_get (tool_options self) ''run_options'' (PList []) = PList run_options
        \<and> \<not> py_in (case tool_options self ''mode'' of None \<Rightarrow> PStr ''cc'' | Some v \<Rightarrow> v)
               [''dpi-hdr-only'', ''lint-only'', ''preprocess-only'', ''xml-only'']"
  then have i: "py_iter (dict_get (tool_options self) ''run_options'' (PList [])) = Inr run_options"
    by simp
  show "procs (snd (snd (Verilator_run_main param_value_str self w)))
        = procs w @
          [(''./V'' @ toplevel self,
            map (\<lambda>(k, v). ''+'' @ k @ ''='' @ param_value_str v []) (plusarg self) @
            map (\<lambda>(k, v). ''--'' @ k @ ''='' @ param_value_str v []) (cmdlinearg self) @
            run_options)]"
    using Verilator_run_main_effect [OF i refl, of param_value_str w] a
    by (simp add: managed_args_eq procs_run_tool logger_info_add_logs procs_add_logs
          procs_check_managed_parser)
next
  assume "tool_options self ''mode'' = Some (PStr ''lint-only'')"
  then show "procs (snd (snd (Verilator_build_main self w)))
        = procs w @ [(''make'', [''lint-only''])] @
          (if option_true self ''gen-xml'' then [(''make'', [''xml-only''])] else []) @
          (if option_true self ''gen-dpi-hdr'' then [(''make'', [''dpi-hdr-only''])] else []) @
          (if option_true self ''gen-preprocess'' then [(''make'', [''preprocess-only''])] else [])"
    by (rule Verilator_build_main_lint)
qed

theorem run_arguments_and_lint_only_witness:
  "args (fst (snd (Verilator_run_main param_value_str_spec
      (edatool_init\<lparr>toplevel := ''top'',
         tool_options := [''mode'' \<mapsto> PStr ''lint-only'', ''run_options'' \<mapsto> PList [''+verbose'']],
         plusarg := [(''seed'', PInt 1)], cmdlinearg := [(''trace'', PStr ''on'')]\<rparr>) world0)))
     = [''+seed=1'', ''--trace=on'', ''+verbose'']
   \<and> procs (snd (snd (Verilator_run_main param_value_str_spec
      (edatool_init\<lparr>toplevel := ''top'',
         tool_options := [''mode'' \<mapsto> PStr ''lint-only'', ''run_options'' \<mapsto> PList [''+verbose'']],
         plusarg := [(''seed'', PInt 1)], cmdlinearg := [(''trace'', PStr ''on'')]\<rparr>) world0))) = []
   \<and> procs (snd (snd (Verilator_build_main
      (edatool_init\<lparr>toplevel := ''top'',
         tool_options := [''mode'' \<mapsto> PStr ''lint-only'', ''run_options'' \<mapsto> PList [''+verbose'']],
         plusarg := [(''seed'', PInt 1)], cmdlinearg := [(''trace'', PStr ''on'')]\<rparr>) world0)))
     = [(''make'', [''lint-only''])]"
  using run_arguments_and_lint_only [of
      "edatool_init\<lparr>toplevel := ''top'',
         tool_options := [''mode'' \<mapsto> PStr ''lint-only'', ''run_options'' \<mapsto> PList [''+verbose'']],
         plusarg := [(''seed'', PInt 1)], cmdlinearg := [(''trace'', PStr ''on'')]\<rparr>"
      "[''+verbose'']" param_value_str_spec world0 "''lint-only''"]
  by (simp add: edatool_init_def dict_get_def param_value_str_spec_def show_int_def world0_def
        option_true_def lower_def char_lower_def)

text \<open>
  C7 as stated fails: with \<^verbatim>\<open>gen-xml\<close> set, \<^verbatim>\<open>build\<close> in mode \<^verbatim>\<open>lint-only\<close> invokes
  the \<^verbatim>\<open>xml-only\<close> target as well.
\<close>

theorem lint_only_build_counterexample:
  "procs (snd (snd (Verilator_build_main
      (edatool_init\<lparr>toplevel := ''top'',
         tool_options := [''mode'' \<mapsto> PStr ''lint-only'', ''gen-xml'' \<mapsto> PBool True]\<rparr>) world0)))
     = [(''make'', [''lint-only'']), (''make'', [''xml-only''])]"
  using Verilator_build_main_lint [of
      "edatool_init\<lparr>toplevel := ''top'',
         tool_options := [''mode'' \<mapsto> PStr ''lint-only'', ''gen-xml'' \<mapsto> PBool True]\<rparr>" world0]
  by (simp add: edatool_init_def dict_get_def world0_def option_true_def lower_def char_lower_def)

text \<open>
  C10. When the options have no \<^verbatim>\<open>mode\<close> key, writing the configuration files,
  \<^verbatim>\<open>configure\<close> (given a top-level module), \<^verbatim>\<open>build\<close> and \<^verbatim>\<open>run\<close> (given run
  options that can be iterated) each leave the options of the tool object with
  \<^verbatim>\<open>mode\<close> set to \<^verbatim>\<open>cc\<close> and otherwise unchanged, and a \<^verbatim>\<open>build\<close> on the object
  that the configuration left behind finds the key there.
\<close>

theorem mode_default_is_stored:
  assumes "tool_options self ''mode'' = None"
  shows "tool_options (fst (snd (write_config_files param_value_str self w)))
           = (tool_options self)(''mode'' \<mapsto> PStr ''cc'')
       \<and> (toplevel self \<noteq> [] \<longrightarrow>
            tool_options (fst (snd (Verilator_configure_main param_value_str self w)))
              = (tool_options self)(''mode'' \<mapsto> PStr ''cc''))
       \<and> tool_options (fst (snd (Verilator_build_main self w)))
           = (tool_options self)(''mode'' \<mapsto> PStr ''cc'')
       \<and> ((\<exists>ro. py_iter (dict_get (tool_options self) ''run_options'' (PList [])) = Inr ro) \<longrightarrow>
            tool_options (fst (snd (Verilator_run_main param_value_str self w)))
              = (tool_options self)(''mode'' \<mapsto> PStr ''cc''))
       \<and> tool_options (fst (snd (Verilator_build_main
              (fst (snd (write_config_files param_value_str self w))) w')))
           = (tool_options self)(''mode'' \<mapsto> PStr ''cc'')"
proof -
  have c: "tool_options (fst (snd (write_config_files param_value_str self w)))
           = (tool_options self)(''mode'' \<mapsto> PStr ''cc'')"
    using assms by (simp add: write_config_files_self tool_options_default_mode)
  have cm: "toplevel self \<noteq> [] \<longrightarrow>
            tool_options (fst (snd (Verilator_configure_main param_value_str self w)))
              = (tool_options self)(''mode'' \<mapsto> PStr ''cc'')"
    using assms
    by (simp add: Verilator_configure_main_def Let_def write_config_files_self
          tool_options_default_mode)
  have b: "tool_options (fst (snd (Verilator_build_main self w)))
           = (tool_options self)(''mode'' \<mapsto> PStr ''cc'')"
    using assms by (simp add: Verilator_build_main_self tool_options_default_mode)
  have r: "(\<exists>ro. py_iter (dict_get (tool_options self) ''run_options'' (PList [])) = Inr ro) \<longrightarrow>
            tool_options (fst (snd (Verilator_run_main param_value_str self w)))
              = (tool_options self)(''mode'' \<mapsto> PStr ''cc'')"
    using assms Verilator_run_main_self [of self _ param_value_str w]
    by (auto simp: tool_options_default_mode)
  have p: "tool_options (fst (snd (Verilator_build_main
              (fst (snd (write_config_files param_value_str self w))) w')))
           = (tool_options self)(''mode'' \<mapsto> PStr ''cc'')"
    using c by (simp add: Verilator_build_main_self tool_options_default_mode)
  show ?thesis using c cm b r p by blast
qed

theorem mode_default_is_stored_witness:
  "tool_options (fst (snd (write_config_files param_value_str_spec
       (edatool_init\<lparr>tool_name := ''proj'', work_root := ''build'', toplevel := ''top''\<rparr>) world0)))
     ''mode'' = Some (PStr ''cc'')
   \<and> tool_options (fst (snd (Verilator_build_main
       (edatool_init\<lparr>tool_name := ''proj'', work_root := ''build'', toplevel := ''top''\<rparr>) world0)))
     ''mode'' = Some (PStr ''cc'')
   \<and> tool_options (fst (snd (Verilator_run_main param_value_str_spec
       (edatool_init\<lparr>tool_name := ''proj'', work_root := ''build'', toplevel := ''top''\<rparr>) world0)))
     ''mode'' = Some (PStr ''cc'')"
proof -
  let ?self = "edatool_init\<lparr>tool_name := ''proj'', work_root := ''build'', toplevel := ''top''\<rparr>"
  have n: "tool_options ?self ''mode'' = None"
    by (simp add: edatool_init_def)
  have i: "\<exists>ro. py_iter (dict_get (tool_options ?self) ''run_options'' (PList [])) = Inr ro"
    by (simp add: edatool_init_def dict_get_def)
  show ?thesis
    using mode_default_is_stored [OF n, of param_value_str_spec world0 world0] i
    by simp
qed

end
